theory Spec2Isabelle
  imports Complex_Main "HOL-Library.Signed_Division"
begin

section \<open>Strings and request parameters\<close>

text \<open>
  Go strings are byte sequences, and so is \<^typ>\<open>string\<close>; \<open>len(code)\<close> is \<^term>\<open>length code\<close>,
  a number of bytes. \<open>strings.TrimPrefix\<close> removes the prefix when it is there and returns
  the string unchanged otherwise. \<open>url.Values.Get\<close> returns the first value stored under
  the key, and the empty string when the key is absent.

  \<open>strings.ToUpper\<close> has two paths. On a string whose bytes are all below \<open>0x80\<close> it
  maps \<open>a\<close>..\<open>z\<close> to \<open>A\<close>..\<open>Z\<close> byte by byte and leaves every other byte alone. On any
  other string it returns \<open>strings.Map(unicode.ToUpper, s)\<close>: the string is decoded as
  UTF-8, an invalid byte becoming \<open>U+FFFD\<close>, every rune is mapped by the case tables of
  the package \<open>unicode\<close>, and the result is encoded again; the number of bytes may
  change. The case tables are not part of the repository, so this second path is the
  parameter \<open>up\<close> of \<open>ToUpper\<close> and of every handler: what is proved holds whatever
  the mapping is.
\<close>

definition TrimPrefix :: "string \<Rightarrow> string \<Rightarrow> string" where
  "TrimPrefix s p = (if take (length p) s = p then drop (length p) s else s)"

definition upperByte :: "char \<Rightarrow> char" where
  "upperByte c =
     (case map_of (zip ''abcdefghijklmnopqrstuvwxyz'' ''ABCDEFGHIJKLMNOPQRSTUVWXYZ'') c of
        Some u \<Rightarrow> u
      | None \<Rightarrow> c)"

definition isASCII :: "string \<Rightarrow> bool" where
  "isASCII s \<longleftrightarrow> list_all (\<lambda>c. (of_char c :: nat) < 128) s"

definition ToUpper :: "(string \<Rightarrow> string) \<Rightarrow> string \<Rightarrow> string" where
  "ToUpper up s = (if isASCII s then map upperByte s else up s)"

type_synonym Values = "(string \<times> string) list"

definition Get :: "Values \<Rightarrow> string \<Rightarrow> string" where
  "Get q key = (case map_of q key of Some v \<Rightarrow> v | None \<Rightarrow> [])"

definition isUpperLetter :: "char \<Rightarrow> bool" where
  "isUpperLetter c \<longleftrightarrow> c \<in> set ''ABCDEFGHIJKLMNOPQRSTUVWXYZ''"

definition isLetter :: "char \<Rightarrow> bool" where
  "isLetter c \<longleftrightarrow> c \<in> set ''ABCDEFGHIJKLMNOPQRSTUVWXYZabcdefghijklmnopqrstuvwxyz''"

section \<open>The decimal library\<close>

text \<open>
  \<open>decimal.Decimal\<close> (github.com/shopspring/decimal) is a pair of an unbounded integer
  \<open>value\<close> and an \<open>int32\<close> exponent \<open>exp\<close>, standing for \<open>value * 10 ^ exp\<close>. The operations
  the handlers call are written out below as the library computes them: \<open>Mul\<close> multiplies
  the values and adds the exponents, \<open>Div\<close> is \<open>DivRound\<close> at \<open>DivisionPrecision = 16\<close>
  fractional digits, \<open>Round\<close> rounds half away from zero. \<open>big.Int.Quo\<close> and
  \<open>big.Int.QuoRem\<close> truncate towards zero (\<open>sdiv\<close>, \<open>smod\<close>); \<open>big.Int.DivMod\<close> by ten is
  Euclidean (\<open>div\<close>, \<open>mod\<close>). The library panics on a zero divisor and on an exponent
  that leaves \<open>int32\<close>. The time and memory that the big integers take are not
  modelled. \<open>dec_val\<close> is the rational number that a \<open>Decimal\<close> stands for; two results
  are compared by it, as their JSON text is the number without trailing zeros.
\<close>

record Decimal =
  d_value :: int
  d_exp :: int

definition MaxInt32 :: int where
  "MaxInt32 = 2147483647"

definition MinInt32 :: int where
  "MinInt32 = - 2147483648"

definition wrap32 :: "int \<Rightarrow> int" where
  "wrap32 n = (n + 2147483648) mod 4294967296 - 2147483648"

definition dec_val :: "Decimal \<Rightarrow> rat" where
  "dec_val d = of_int (d_value d) * 10 powi (d_exp d)"

definition zeroDecimal :: Decimal where
  "zeroDecimal = \<lparr>d_value = 0, d_exp = 0\<rparr>"

definition NewFromInt :: "int \<Rightarrow> Decimal" where
  "NewFromInt v = \<lparr>d_value = v, d_exp = 0\<rparr>"

definition New :: "int \<Rightarrow> int \<Rightarrow> Decimal" where
  "New v e = \<lparr>d_value = v, d_exp = e\<rparr>"

definition IsZero :: "Decimal \<Rightarrow> bool" where
  "IsZero d \<longleftrightarrow> d_value d = 0"

definition Abs :: "Decimal \<Rightarrow> Decimal" where
  "Abs d = \<lparr>d_value = \<bar>d_value d\<bar>, d_exp = d_exp d\<rparr>"

definition rescale :: "Decimal \<Rightarrow> int \<Rightarrow> Decimal" where
  "rescale d e =
     (if d_exp d = e then d
      else if e > d_exp d then \<lparr>d_value = d_value d sdiv 10 ^ nat (e - d_exp d), d_exp = e\<rparr>
      else \<lparr>d_value = d_value d * 10 ^ nat (d_exp d - e), d_exp = e\<rparr>)"

definition RescalePair :: "Decimal \<Rightarrow> Decimal \<Rightarrow> Decimal \<times> Decimal" where
  "RescalePair d1 d2 =
     (if d_exp d1 < d_exp d2 then (d1, rescale d2 (d_exp d1))
      else if d_exp d1 > d_exp d2 then (rescale d1 (d_exp d2), d2)
      else (d1, d2))"

definition Cmp :: "Decimal \<Rightarrow> Decimal \<Rightarrow> int" where
  "Cmp d d2 =
     (let (rd, rd2) = (if d_exp d = d_exp d2 then (d, d2) else RescalePair d d2)
      in if d_value rd < d_value rd2 then - 1 else if d_value rd = d_value rd2 then 0 else 1)"

definition Add :: "Decimal \<Rightarrow> Decimal \<Rightarrow> Decimal" where
  "Add d d2 = (let (rd, rd2) = RescalePair d d2 in \<lparr>d_value = d_value rd + d_value rd2, d_exp = d_exp rd\<rparr>)"

definition Sub :: "Decimal \<Rightarrow> Decimal \<Rightarrow> Decimal" where
  "Sub d d2 = (let (rd, rd2) = RescalePair d d2 in \<lparr>d_value = d_value rd - d_value rd2, d_exp = d_exp rd\<rparr>)"

definition Mul :: "Decimal \<Rightarrow> Decimal \<Rightarrow> string + Decimal" where
  "Mul d d2 =
     (let expInt64 = d_exp d + d_exp d2 in
      if expInt64 > MaxInt32 \<or> expInt64 < MinInt32
      then Inl ''exponent overflows an int32!''
      else Inr \<lparr>d_value = d_value d * d_value d2, d_exp = expInt64\<rparr>)"

definition QuoRem :: "Decimal \<Rightarrow> Decimal \<Rightarrow> int \<Rightarrow> string + Decimal \<times> Decimal" where
  "QuoRem d d2 precision =
     (if d_value d2 = 0 then Inl ''decimal division by 0''
      else
        let scale = - precision;
            e = d_exp d - d_exp d2 - scale
        in if e > MaxInt32 \<or> e < MinInt32 then Inl ''overflow in decimal QuoRem''
           else
             let (aa, bb, scalerest) =
                   (if e < 0
                    then (d_value d, d_value d2 * 10 ^ nat (- e), d_exp d)
                    else (d_value d * 10 ^ nat e, d_value d2, wrap32 (scale + d_exp d2)))
             in Inr (\<lparr>d_value = aa sdiv bb, d_exp = scale\<rparr>,
                     \<lparr>d_value = aa smod bb, d_exp = scalerest\<rparr>))"

definition DivRound :: "Decimal \<Rightarrow> Decimal \<Rightarrow> int \<Rightarrow> string + Decimal" where
  "DivRound d d2 precision =
     (case QuoRem d d2 precision of
        Inl p \<Rightarrow> Inl p
      | Inr (q, r) \<Rightarrow>
          let r2 = \<lparr>d_value = \<bar>d_value r\<bar> * 2, d_exp = wrap32 (d_exp r + precision)\<rparr>;
              c = Cmp r2 (Abs d2)
          in if c < 0 then Inr q
             else if sgn (d_value d) * sgn (d_value d2) < 0
                  then Inr (Sub q (New 1 (- precision)))
                  else Inr (Add q (New 1 (- precision))))"

definition DivisionPrecision :: int where
  "DivisionPrecision = 16"

definition Div :: "Decimal \<Rightarrow> Decimal \<Rightarrow> string + Decimal" where
  "Div d d2 = DivRound d d2 DivisionPrecision"

definition Round :: "Decimal \<Rightarrow> int \<Rightarrow> Decimal" where
  "Round d places =
     (if d_exp d = - places then d
      else
        let ret = rescale d (- places - 1);
            v = (if d_value ret < 0 then d_value ret - 5 else d_value ret + 5);
            q = v div 10;
            m = v mod 10
        in \<lparr>d_value = (if q < 0 \<and> m \<noteq> 0 then q + 1 else q), d_exp = d_exp ret + 1\<rparr>)"

subsection \<open>Parsing a decimal literal\<close>

text \<open>
  \<open>decimal.NewFromString\<close>: an optional exponent part after the first \<open>E\<close> or \<open>e\<close>, read by
  \<open>strconv.ParseInt(_, 10, 32)\<close>; at most one decimal point; the remaining sign and digits
  read as one integer (\<open>strconv.ParseInt\<close> up to 18 bytes, \<open>big.Int.SetString\<close> beyond, the
  same grammar: an optional sign and at least one decimal digit). Every error makes the
  caller see the zero \<open>Decimal\<close>.
\<close>

definition digitVal :: "char \<Rightarrow> int option" where
  "digitVal c = map_of (zip ''0123456789'' [0, 1, 2, 3, 4, 5, 6, 7, 8, 9]) c"

fun digitsVal :: "int \<Rightarrow> string \<Rightarrow> int option" where
  "digitsVal acc [] = Some acc"
| "digitsVal acc (c # cs) =
     (case digitVal c of None \<Rightarrow> None | Some k \<Rightarrow> digitsVal (acc * 10 + k) cs)"

definition ParseInt :: "string \<Rightarrow> int option" where
  "ParseInt s =
     (case s of
        [] \<Rightarrow> None
      | c # cs \<Rightarrow>
          if c = CHR ''+'' then (if cs = [] then None else digitsVal 0 cs)
          else if c = CHR ''-'' then (if cs = [] then None else map_option uminus (digitsVal 0 cs))
          else digitsVal 0 s)"

definition ParseInt32 :: "string \<Rightarrow> int option" where
  "ParseInt32 s =
     (case ParseInt s of
        None \<Rightarrow> None
      | Some n \<Rightarrow> if n < MinInt32 \<or> n > MaxInt32 then None else Some n)"

definition notE :: "char \<Rightarrow> bool" where
  "notE c \<longleftrightarrow> c \<noteq> CHR ''E'' \<and> c \<noteq> CHR ''e''"

definition notPoint :: "char \<Rightarrow> bool" where
  "notPoint c \<longleftrightarrow> c \<noteq> CHR ''.''"

definition NewFromString :: "string \<Rightarrow> string + Decimal" where
  "NewFromString s =
     (let mantissa = takeWhile notE s;
          rest = dropWhile notE s;
          expo = (if rest = [] then Some 0 else ParseInt32 (tl rest))
      in case expo of
           None \<Rightarrow> Inl ''exponent is not numeric''
         | Some e0 \<Rightarrow>
             if length (filter (\<lambda>c. c = CHR ''.'') mantissa) > 1 then Inl ''too many .s''
             else
               let intPart = takeWhile notPoint mantissa;
                   fracPart = (if dropWhile notPoint mantissa = [] then []
                               else tl (dropWhile notPoint mantissa));
                   e = e0 - int (length fracPart)
               in (case ParseInt (intPart @ fracPart) of
                     None \<Rightarrow> Inl ''cannot convert to decimal''
                   | Some v \<Rightarrow>
                       if e < MinInt32 \<or> e > MaxInt32 then Inl ''fractional part too long''
                       else Inr \<lparr>d_value = v, d_exp = e\<rparr>))"

section \<open>The Rate Store\<close>

text \<open>
  The two tables of \<open>initDatabase\<close>: \<open>exchange_rates\<close>, keyed by its primary key
  \<open>currency_code\<close>, and \<open>rate_history\<close>, a list of rows in insertion order. A timestamp is
  a number of microseconds. The type \<open>'r\<close> of a rate is \<open>float64\<close> on the provider's side
  and \<open>DECIMAL(18, 8)\<close>, scanned into a \<^typ>\<open>Decimal\<close>, on the handlers' side; the
  synchronizer only moves rates, so it is modelled for any \<open>'r\<close>. \<open>reachable\<close> says whether
  the server behind the pool answers.
\<close>

type_synonym timestamp = int

record 'r rate_row =
  rate_to_base :: 'r
  updated_at :: timestamp

record 'r history_row =
  currency_code :: string
  rate :: 'r
  recorded_at :: timestamp

record 'r pool =
  exchange_rates :: "string \<Rightarrow> 'r rate_row option"
  rate_history :: "'r history_row list"
  reachable :: bool

definition upsertRate :: "string \<Rightarrow> 'r \<Rightarrow> timestamp \<Rightarrow> 'r pool \<Rightarrow> 'r pool" where
  "upsertRate code r now db =
     db\<lparr>exchange_rates := (exchange_rates db)(code \<mapsto> \<lparr>rate_to_base = r, updated_at = now\<rparr>)\<rparr>"

definition appendHistory :: "string \<Rightarrow> 'r \<Rightarrow> timestamp \<Rightarrow> 'r pool \<Rightarrow> 'r pool" where
  "appendHistory code r now db =
     db\<lparr>rate_history := rate_history db @ [\<lparr>currency_code = code, rate = r, recorded_at = now\<rparr>]\<rparr>"

section \<open>The Rate Synchronizer\<close>

text \<open>
  \<open>updateRates\<close> talks to the provider and to PostgreSQL; what they answer is an input of
  the model. \<open>reply\<close> is the outcome of \<open>http.Get\<close> followed by the JSON decoder. \<open>faults\<close>
  says which database commands of the cycle fail: \<open>Begin\<close>, the \<open>n\<close>-th \<open>tx.Exec\<close> (counted
  from 0), \<open>Commit\<close>. \<open>Quotes\<close> is a Go map; the list holds its entries in the order in
  which \<open>range\<close> visits them, which Go leaves unspecified.

  The transaction follows PostgreSQL: statements work on a private copy of the tables;
  a statement that fails puts the transaction into the aborted state, in which every
  later statement is refused; \<open>Commit\<close> publishes the copy when the transaction is not
  aborted and the commit itself succeeds, and discards it otherwise. \<open>updateRates\<close> reads
  no error of \<open>tx.Exec\<close> or \<open>tx.Commit\<close>, so these are the only places where a failure
  acts. \<open>NOW()\<close> and \<open>CURRENT_TIMESTAMP\<close> are the start time of the transaction, the
  same in every statement of a cycle.
\<close>

record 'r APIResponse =
  Success :: bool
  Timestamp :: int
  Quotes :: "(string \<times> 'r) list"

datatype 'r reply = NetworkError | MalformedBody | Decoded "'r APIResponse"

record faults =
  begin_fails :: bool
  exec_fails :: "nat \<Rightarrow> bool"
  commit_fails :: bool

record 'r tx =
  work :: "'r pool"
  aborted :: bool
  issued :: nat

definition Begin :: "faults \<Rightarrow> 'r pool \<Rightarrow> 'r tx option" where
  "Begin f db =
     (if \<not> reachable db \<or> begin_fails f then None
      else Some \<lparr>work = db, aborted = False, issued = 0\<rparr>)"

definition Exec :: "faults \<Rightarrow> ('r pool \<Rightarrow> 'r pool) \<Rightarrow> 'r tx \<Rightarrow> 'r tx" where
  "Exec f stmt t =
     (if aborted t \<or> exec_fails f (issued t)
      then t\<lparr>aborted := True, issued := issued t + 1\<rparr>
      else t\<lparr>work := stmt (work t), issued := issued t + 1\<rparr>)"

definition Commit :: "faults \<Rightarrow> 'r tx \<Rightarrow> 'r pool \<Rightarrow> 'r pool" where
  "Commit f t db = (if aborted t \<or> commit_fails f then db else work t)"

fun applyQuotes :: "faults \<Rightarrow> timestamp \<Rightarrow> (string \<times> 'r) list \<Rightarrow> 'r tx \<Rightarrow> 'r tx" where
  "applyQuotes f now [] t = t"
| "applyQuotes f now ((pair, r) # qs) t =
     (let code = TrimPrefix pair ''USD''
      in if code = [] \<or> length code \<noteq> 3 then applyQuotes f now qs t
         else applyQuotes f now qs
                (Exec f (appendHistory code r now) (Exec f (upsertRate code r now) t)))"

definition updateRates :: "faults \<Rightarrow> timestamp \<Rightarrow> 'r reply \<Rightarrow> 'r pool \<Rightarrow> 'r pool" where
  "updateRates f now rep db =
     (case rep of
        NetworkError \<Rightarrow> db
      | MalformedBody \<Rightarrow> db
      | Decoded data \<Rightarrow>
          (case Begin f db of
             None \<Rightarrow> db
           | Some t \<Rightarrow> Commit f (applyQuotes f now (Quotes data) t) db))"

section \<open>The handlers\<close>

text \<open>
  A handler returns what it writes to the client together with the list of the SQL
  queries it sent, in order. \<open>http.Error(w, msg, code)\<close> is \<open>HttpError msg code\<close>; a handler
  that panics writes nothing: \<open>net/http\<close> recovers the panic and closes the connection.
  The messages are the bytes of the source, which is UTF-8: \<open>0xC3 0xB3\<close> is the letter o
  with an acute accent, \<open>0xC3 0xA1\<close> the letter a with one.
  \<open>QueryRow(...).Scan\<close> returns an error when the server is not reachable and when no
  row matches. The handlers are those of \<open>main.go\<close>; the repository also holds an
  earlier copy of the program with the same \<open>updateRates\<close>, \<open>handleConvert\<close> and
  \<open>handleSingleRate\<close>.
\<close>

datatype cond = RecordedAtGe string | RecordedAtLe string

datatype sql =
    SelectRate string
  | SelectRateUpdated string
  | SelectHistory string "cond list"

datatype 'a response = HttpError string nat | Json 'a | Panicked string

definition QueryRow :: "'r pool \<Rightarrow> string \<Rightarrow> 'r rate_row option" where
  "QueryRow db code = (if reachable db then exchange_rates db code else None)"

subsection \<open>\<open>/convert\<close>\<close>

text \<open>
  \<open>amountOf\<close> is the start of \<open>handleConvert\<close>: the parameter \<open>amount\<close> is parsed, the
  error of the parser is dropped, which leaves the zero \<open>Decimal\<close>, and a zero amount
  is replaced by 1.
\<close>

record convert_body =
  c_from :: string
  c_to :: string
  c_amount :: Decimal
  c_result :: Decimal

definition amountOf :: "Values \<Rightarrow> Decimal" where
  "amountOf q =
     (let amount = (case NewFromString (Get q ''amount'') of Inl err \<Rightarrow> zeroDecimal | Inr d \<Rightarrow> d)
      in if IsZero amount then NewFromInt 1 else amount)"

definition handleConvert :: "(string \<Rightarrow> string) \<Rightarrow> Decimal pool \<Rightarrow> Values
    \<Rightarrow> convert_body response \<times> sql list" where
  "handleConvert up db q =
     (let from = ToUpper up (Get q ''from'');
          to = ToUpper up (Get q ''to'');
          amount = amountOf q;
          sent = [SelectRate from, SelectRate to]
      in case (QueryRow db from, QueryRow db to) of
           (Some rowFrom, Some rowTo) \<Rightarrow>
             (case Mul amount (rate_to_base rowTo) of
                Inl p \<Rightarrow> (Panicked p, sent)
              | Inr product \<Rightarrow>
                  (case Div product (rate_to_base rowFrom) of
                     Inl p \<Rightarrow> (Panicked p, sent)
                   | Inr result \<Rightarrow>
                       (Json \<lparr>c_from = from, c_to = to, c_amount = amount,
                              c_result = Round result 4\<rparr>, sent)))
         | _ \<Rightarrow> (HttpError ''Divisa no encontrada'' 404, sent))"

subsection \<open>\<open>/history\<close>\<close>

text \<open>
  The handler builds the \<open>WHERE\<close> clause from the bounds that are not empty and passes
  them as text; PostgreSQL reads them with the input function of
  \<open>TIMESTAMP WITH TIME ZONE\<close>, here the parameter \<open>tsin\<close>. \<open>Query\<close> returns an error when
  the server is not reachable. A bound that \<open>tsin\<close> rejects makes the statement fail on
  the server; the rows are then empty, and the handler does not read \<open>rows.Err()\<close>.
  \<open>ORDER BY recorded_at DESC LIMIT 100\<close> is a descending sort followed by \<open>take 100\<close>; SQL
  leaves the order of rows with equal \<open>recorded_at\<close> open, the model takes one of them.
  A result without rows is written as JSON \<open>null\<close>, here the empty list.
  The formatting of \<open>date\<close> as RFC 3339 text is not modelled: \<open>h_date\<close> is the timestamp.
\<close>

record history_entry =
  h_code :: string
  h_rate :: Decimal
  h_date :: timestamp

definition condArg :: "cond \<Rightarrow> string" where
  "condArg c = (case c of RecordedAtGe s \<Rightarrow> s | RecordedAtLe s \<Rightarrow> s)"

definition condHolds :: "(string \<Rightarrow> timestamp option) \<Rightarrow> 'r history_row \<Rightarrow> cond \<Rightarrow> bool" where
  "condHolds tsin row c =
     (case c of
        RecordedAtGe s \<Rightarrow> (case tsin s of None \<Rightarrow> False | Some t \<Rightarrow> recorded_at row \<ge> t)
      | RecordedAtLe s \<Rightarrow> (case tsin s of None \<Rightarrow> False | Some t \<Rightarrow> recorded_at row \<le> t))"

definition Query :: "(string \<Rightarrow> timestamp option) \<Rightarrow> 'r pool \<Rightarrow> string \<Rightarrow> cond list
    \<Rightarrow> 'r history_row list option" where
  "Query tsin db code conds =
     (if \<not> reachable db then None
      else if \<exists>c \<in> set conds. tsin (condArg c) = None then Some []
      else Some (take 100 (rev (sort_key recorded_at
             (filter (\<lambda>row. currency_code row = code \<and> (\<forall>c \<in> set conds. condHolds tsin row c))
                (rate_history db))))))"

definition msgCodeRequired :: string where
  "msgCodeRequired =
     ''Se requiere c'' @ [CHR 0xC3, CHR 0xB3] @ ''digo de moneda (par'' @ [CHR 0xC3, CHR 0xA1]
       @ ''metro 'code')''"

definition handleHistory :: "(string \<Rightarrow> string) \<Rightarrow> (string \<Rightarrow> timestamp option)
    \<Rightarrow> Decimal pool \<Rightarrow> Values \<Rightarrow> history_entry list response \<times> sql list" where
  "handleHistory up tsin db q =
     (let code = ToUpper up (Get q ''code'');
          start = Get q ''start'';
          end = Get q ''end''
      in if length code \<noteq> 3
         then (HttpError msgCodeRequired 400, [])
         else
           let conds = (if start \<noteq> [] then [RecordedAtGe start] else [])
                     @ (if end \<noteq> [] then [RecordedAtLe end] else [])
           in (case Query tsin db code conds of
                 None \<Rightarrow> (HttpError ''Error interno'' 500, [SelectHistory code conds])
               | Some rows \<Rightarrow>
                   (Json (map (\<lambda>row. \<lparr>h_code = code, h_rate = Round (rate row) 6,
                                       h_date = recorded_at row\<rparr>) rows),
                    [SelectHistory code conds])))"

subsection \<open>\<open>/rates/\<close>\<close>

record rate_body =
  r_code :: string
  r_rate :: Decimal
  r_base :: string
  r_updated_at :: timestamp

definition msgInvalidCode :: string where
  "msgInvalidCode = ''C'' @ [CHR 0xC3, CHR 0xB3] @ ''digo inv'' @ [CHR 0xC3, CHR 0xA1] @ ''lido''"

definition handleSingleRate :: "(string \<Rightarrow> string) \<Rightarrow> Decimal pool \<Rightarrow> string
    \<Rightarrow> rate_body response \<times> sql list" where
  "handleSingleRate up db path =
     (let code = ToUpper up (TrimPrefix path ''/rates/'')
      in if length code \<noteq> 3 then (HttpError msgInvalidCode 400, [])
         else
           (case QueryRow db code of
              None \<Rightarrow> (HttpError ''No encontrado'' 404, [SelectRateUpdated code])
            | Some row \<Rightarrow>
                (Json \<lparr>r_code = code, r_rate = Round (rate_to_base row) 6, r_base = ''USD'',
                       r_updated_at = updated_at row\<rparr>, [SelectRateUpdated code])))"


section \<open>Reference notions\<close>

text \<open>
  What a sync cycle is meant to do, written without the transaction. \<open>validQuotes\<close> keeps
  the entries whose symbol, once the prefix \<open>USD\<close> is stripped, is 3 bytes long, and pairs
  the stripped code with the rate. \<open>applyAll\<close> upserts the current rate and appends the
  history row of each of them, in order. \<open>noFaults\<close> is a cycle in which every database
  command succeeds.
\<close>

definition validQuotes :: "(string \<times> 'r) list \<Rightarrow> (string \<times> 'r) list" where
  "validQuotes qs =
     map (\<lambda>(pair, r). (TrimPrefix pair ''USD'', r))
       (filter (\<lambda>(pair, r). length (TrimPrefix pair ''USD'') = 3) qs)"

definition applyAll :: "timestamp \<Rightarrow> (string \<times> 'r) list \<Rightarrow> 'r pool \<Rightarrow> 'r pool" where
  "applyAll now vs db = foldl (\<lambda>d (code, r). appendHistory code r now (upsertRate code r now d)) db vs"

definition historyRow :: "timestamp \<Rightarrow> string \<times> 'r \<Rightarrow> 'r history_row" where
  "historyRow now = (\<lambda>(code, r). \<lparr>currency_code = code, rate = r, recorded_at = now\<rparr>)"

definition noFaults :: faults where
  "noFaults = \<lparr>begin_fails = False, exec_fails = (\<lambda>n. False), commit_fails = False\<rparr>"

text \<open>
  Rounding half away from zero. \<open>roundHalfAway p x\<close> is the rational \<open>x\<close> rounded to \<open>p\<close>
  fractional digits; \<open>rha a b\<close> is the integer nearest to \<open>a / b\<close>, a tie going away from
  zero. \<open>isDecimal\<close> is the range of the \<open>int32\<close> exponent. \<open>scaledNum\<close> and \<open>scaledDen\<close>
  are the two integers that \<open>QuoRem\<close> divides at precision 16. \<open>noPanic\<close> collects the
  conditions under which neither \<open>Mul\<close> nor \<open>Div\<close> panics in \<open>handleConvert\<close>: a divisor
  that is not zero, and exponents that stay in \<open>int32\<close>. \<open>convertValue\<close> is the number
  that \<open>/convert\<close> answers: the quotient as \<open>Div\<close> leaves it, with 16 fractional digits,
  rounded to 4 digits by \<open>Round\<close>. \<open>tolerance\<close> bounds the distance between
  \<open>convertValue\<close> and the exact quotient.
\<close>

definition roundHalfAway :: "int \<Rightarrow> rat \<Rightarrow> rat" where
  "roundHalfAway p x = sgn x * of_int \<lfloor>\<bar>x\<bar> * 10 powi p + 1 / 2\<rfloor> * 10 powi (- p)"

definition rha :: "int \<Rightarrow> int \<Rightarrow> int" where
  "rha a b = sgn a * sgn b * ((2 * \<bar>a\<bar> + \<bar>b\<bar>) div (2 * \<bar>b\<bar>))"

definition isDecimal :: "Decimal \<Rightarrow> bool" where
  "isDecimal d \<longleftrightarrow> MinInt32 \<le> d_exp d \<and> d_exp d \<le> MaxInt32"

definition scaledNum :: "Decimal \<Rightarrow> Decimal \<Rightarrow> int" where
  "scaledNum d d2 =
     (let e = d_exp d - d_exp d2 + 16 in if e < 0 then d_value d else d_value d * 10 ^ nat e)"

definition scaledDen :: "Decimal \<Rightarrow> Decimal \<Rightarrow> int" where
  "scaledDen d d2 =
     (let e = d_exp d - d_exp d2 + 16 in if e < 0 then d_value d2 * 10 ^ nat (- e) else d_value d2)"

definition noPanic :: "Decimal \<Rightarrow> Decimal \<Rightarrow> Decimal \<Rightarrow> bool" where
  "noPanic amount rateTo rateFrom \<longleftrightarrow>
     d_value rateFrom \<noteq> 0 \<and> isDecimal rateFrom
     \<and> MinInt32 \<le> d_exp amount + d_exp rateTo \<and> d_exp amount + d_exp rateTo \<le> MaxInt32
     \<and> MinInt32 \<le> d_exp amount + d_exp rateTo - d_exp rateFrom + 16
     \<and> d_exp amount + d_exp rateTo - d_exp rateFrom + 16 \<le> MaxInt32"

definition convertValue :: "rat \<Rightarrow> rat \<Rightarrow> rat \<Rightarrow> rat" where
  "convertValue amount rateTo rateFrom =
     roundHalfAway 4 (roundHalfAway 16 (amount * rateTo / rateFrom))"

definition tolerance :: rat where
  "tolerance = 10 powi (- 4) / 2 + 10 powi (- 16) / 2"

text \<open>
  The history query. \<open>entryOf\<close> is the JSON object written for a row. \<open>inWindow\<close> says that
  a timestamp lies between the bounds of the request, each bound inclusive and counted
  only when its parameter is not empty.
\<close>

definition entryOf :: "string \<Rightarrow> Decimal history_row \<Rightarrow> history_entry" where
  "entryOf code row = \<lparr>h_code = code, h_rate = Round (rate row) 6, h_date = recorded_at row\<rparr>"

definition inWindow :: "(string \<Rightarrow> timestamp option) \<Rightarrow> string \<Rightarrow> string \<Rightarrow> timestamp \<Rightarrow> bool" where
  "inWindow tsin start end t \<longleftrightarrow>
     (start = [] \<or> (\<exists>t0. tsin start = Some t0 \<and> t0 \<le> t))
     \<and> (end = [] \<or> (\<exists>t1. tsin end = Some t1 \<and> t \<le> t1))"

section \<open>Sample data\<close>

text \<open>
  Concrete stores, provider payloads and requests on which the model is run. The rates
  are \<open>DECIMAL(18, 8)\<close> values: 1 for USD, 0.9 for EUR, 150 for JPY. \<open>sampleTsin\<close> reads a
  timestamp written as a number of microseconds.

  \<open>sampleUpper\<close> is \<open>strings.Map(unicode.ToUpper, s)\<close> on the strings used below, which
  are made of ASCII bytes, of the long s (\<open>U+017F\<close>, the bytes \<open>0xC5 0xBF\<close>), whose upper
  case is \<open>S\<close>, and of the byte \<open>0xFF\<close>, which is not valid UTF-8 and is replaced by
  \<open>U+FFFD\<close> (the bytes \<open>0xEF 0xBF 0xBD\<close>). It is the mapping given to the handlers
  when they are run; on a request made of ASCII bytes it is never called.
\<close>

definition emptyStore :: "rat pool" where
  "emptyStore = \<lparr>exchange_rates = Map.empty, rate_history = [], reachable = True\<rparr>"

definition snapshot :: "rat APIResponse" where
  "snapshot = \<lparr>Success = True, Timestamp = 1700000000,
                Quotes = [(''USDEUR'', 9 / 10), (''USDJPY'', 150), (''USDXX'', 2)]\<rparr>"

definition secondExecFails :: faults where
  "secondExecFails = \<lparr>begin_fails = False, exec_fails = (\<lambda>n. n = 1), commit_fails = False\<rparr>"

definition usdRate :: Decimal where "usdRate = \<lparr>d_value = 100000000, d_exp = - 8\<rparr>"

definition eurRate :: Decimal where "eurRate = \<lparr>d_value = 90000000, d_exp = - 8\<rparr>"

definition jpyRate :: Decimal where "jpyRate = \<lparr>d_value = 15000000000, d_exp = - 8\<rparr>"

definition sampleStore :: "Decimal pool" where
  "sampleStore =
     \<lparr>exchange_rates =
        [''USD'' \<mapsto> \<lparr>rate_to_base = usdRate, updated_at = 3000\<rparr>,
         ''EUR'' \<mapsto> \<lparr>rate_to_base = eurRate, updated_at = 3000\<rparr>,
         ''JPY'' \<mapsto> \<lparr>rate_to_base = jpyRate, updated_at = 3000\<rparr>],
      rate_history =
        [\<lparr>currency_code = ''EUR'', rate = \<lparr>d_value = 91000000, d_exp = - 8\<rparr>, recorded_at = 1000\<rparr>,
         \<lparr>currency_code = ''JPY'', rate = \<lparr>d_value = 14900000000, d_exp = - 8\<rparr>, recorded_at = 1000\<rparr>,
         \<lparr>currency_code = ''EUR'', rate = \<lparr>d_value = 92000000, d_exp = - 8\<rparr>, recorded_at = 2000\<rparr>,
         \<lparr>currency_code = ''EUR'', rate = eurRate, recorded_at = 3000\<rparr>,
         \<lparr>currency_code = ''JPY'', rate = jpyRate, recorded_at = 3000\<rparr>],
      reachable = True\<rparr>"

fun sampleUpper :: "string \<Rightarrow> string" where
  "sampleUpper [] = []"
| "sampleUpper [c] = (if c = CHR 0xFF then [CHR 0xEF, CHR 0xBF, CHR 0xBD] else [upperByte c])"
| "sampleUpper (c # d # cs) =
     (if c = CHR 0xC5 \<and> d = CHR 0xBF then CHR ''S'' # sampleUpper cs
      else if c = CHR 0xFF then [CHR 0xEF, CHR 0xBF, CHR 0xBD] @ sampleUpper (d # cs)
      else upperByte c # sampleUpper (d # cs))"

definition sampleTsin :: "string \<Rightarrow> timestamp option" where
  "sampleTsin s = ParseInt s"

definition longAmount :: Values where
  "longAmount = [(''from'', ''JPY''), (''to'', ''USD''), (''amount'', ''0.00749999999999999999'')]"

definition hundredUsd :: Values where
  "hundredUsd = [(''from'', ''usd''), (''to'', ''eur''), (''amount'', ''100'')]"

section \<open>Properties of the synchronizer\<close>

text \<open>
  The loop of \<open>updateRates\<close> issues two statements for every valid entry. The transaction
  is aborted at the end exactly when one of them failed, and otherwise its working copy
  is the store with every valid entry applied.
\<close>

lemma validQuotes_Nil [simp]: "validQuotes [] = []"
  by (simp add: validQuotes_def)

lemma validQuotes_Cons:
  "validQuotes ((pair, r) # qs) =
     (if length (TrimPrefix pair ''USD'') = 3 then (TrimPrefix pair ''USD'', r) # validQuotes qs
      else validQuotes qs)"
  by (simp add: validQuotes_def)

lemma Exec_issued [simp]: "issued (Exec f stmt t) = issued t + 1"
  by (simp add: Exec_def)

lemma Exec_aborted: "aborted (Exec f stmt t) \<longleftrightarrow> aborted t \<or> exec_fails f (issued t)"
  by (simp add: Exec_def)

lemma Exec_work: "\<not> aborted (Exec f stmt t) \<Longrightarrow> work (Exec f stmt t) = stmt (work t)"
  by (simp add: Exec_def split: if_splits)

lemma applyQuotes_issued:
  "issued (applyQuotes f now qs t) = issued t + 2 * length (validQuotes qs)"
  by (induction qs arbitrary: t) (auto simp: validQuotes_Cons Let_def)

lemma applyQuotes_aborted:
  "aborted (applyQuotes f now qs t) \<longleftrightarrow>
     aborted t \<or> (\<exists>n. issued t \<le> n \<and> n < issued t + 2 * length (validQuotes qs) \<and> exec_fails f n)"
proof (induction qs arbitrary: t)
  case Nil
  then show ?case by auto
next
  case (Cons a qs)
  obtain pair r where a: "a = (pair, r)" by (cases a)
  show ?case
  proof (cases "length (TrimPrefix pair ''USD'') = 3")
    case False
    then show ?thesis using Cons.IH [of t] by (auto simp: a validQuotes_Cons Let_def)
  next
    case True
    let ?t2 = "Exec f (appendHistory (TrimPrefix pair ''USD'') r now)
                 (Exec f (upsertRate (TrimPrefix pair ''USD'') r now) t)"
    have step: "applyQuotes f now (a # qs) t = applyQuotes f now qs ?t2"
      using True by (auto simp: a Let_def)
    have ab2: "aborted ?t2 \<longleftrightarrow> aborted t \<or> exec_fails f (issued t) \<or> exec_fails f (issued t + 1)"
      by (simp add: Exec_aborted)
    have is2: "issued ?t2 = issued t + 2" by simp
    have len: "length (validQuotes (a # qs)) = Suc (length (validQuotes qs))"
      using True by (simp add: a validQuotes_Cons)
    have "(\<exists>n. issued t \<le> n \<and> n < issued t + 2 * Suc (length (validQuotes qs)) \<and> exec_fails f n)
          \<longleftrightarrow> exec_fails f (issued t) \<or> exec_fails f (issued t + 1)
               \<or> (\<exists>n. issued t + 2 \<le> n \<and> n < issued t + 2 + 2 * length (validQuotes qs) \<and> exec_fails f n)"
      (is "?L \<longleftrightarrow> ?R")
    proof
      assume ?L
      then obtain n where n: "issued t \<le> n" "n < issued t + 2 * Suc (length (validQuotes qs))" "exec_fails f n"
        by blast
      consider "n = issued t" | "n = issued t + 1" | "issued t + 2 \<le> n" using n(1) by linarith
      then show ?R
      proof cases
        case 1 then show ?thesis using n by simp
      next
        case 2 then show ?thesis using n by simp
      next
        case 3 then show ?thesis using n by auto
      qed
    next
      assume ?R
      then consider "exec_fails f (issued t)" | "exec_fails f (issued t + 1)"
        | n where "issued t + 2 \<le> n" "n < issued t + 2 + 2 * length (validQuotes qs)" "exec_fails f n"
        by blast
      then show ?L
      proof cases
        case 1 then show ?thesis by (intro exI [of _ "issued t"]) simp
      next
        case 2 then show ?thesis by (intro exI [of _ "issued t + 1"]) simp
      next
        case 3 then show ?thesis by (intro exI [of _ n]) simp
      qed
    qed
    then show ?thesis
      unfolding step Cons.IH [of ?t2] ab2 is2 len by blast
  qed
qed

lemma applyQuotes_work:
  "\<not> aborted (applyQuotes f now qs t) \<Longrightarrow>
     work (applyQuotes f now qs t) = applyAll now (validQuotes qs) (work t)"
proof (induction qs arbitrary: t)
  case Nil
  then show ?case by (simp add: applyAll_def)
next
  case (Cons a qs)
  obtain pair r where a: "a = (pair, r)" by (cases a)
  show ?case
  proof (cases "length (TrimPrefix pair ''USD'') = 3")
    case False
    then show ?thesis using Cons by (auto simp: a validQuotes_Cons Let_def)
  next
    case True
    let ?t1 = "Exec f (upsertRate (TrimPrefix pair ''USD'') r now) t"
    let ?t2 = "Exec f (appendHistory (TrimPrefix pair ''USD'') r now) ?t1"
    have step: "applyQuotes f now (a # qs) t = applyQuotes f now qs ?t2"
      using True by (auto simp: a Let_def)
    have na: "\<not> aborted (applyQuotes f now qs ?t2)" using Cons.prems step by simp
    then have "\<not> aborted ?t2" by (simp add: applyQuotes_aborted)
    then have w: "work ?t2 = appendHistory (TrimPrefix pair ''USD'') r now
                    (upsertRate (TrimPrefix pair ''USD'') r now (work t))"
      by (simp add: Exec_work Exec_aborted)
    show ?thesis
      unfolding step Cons.IH [OF na] w using True
      by (simp add: a validQuotes_Cons applyAll_def)
  qed
qed

lemma updateRates_cases:
  "updateRates f now rep db = db \<or>
   (\<exists>data. rep = Decoded data \<and> updateRates f now rep db = applyAll now (validQuotes (Quotes data)) db)"
  by (cases rep) (auto simp: updateRates_def Begin_def Commit_def applyQuotes_work split: option.splits)

lemma updateRates_failure:
  assumes "rep = NetworkError \<or> rep = MalformedBody \<or>
           (\<exists>data. rep = Decoded data \<and>
              (\<not> reachable db \<or> begin_fails f
               \<or> (\<exists>n < 2 * length (validQuotes (Quotes data)). exec_fails f n)
               \<or> commit_fails f))"
  shows "updateRates f now rep db = db"
proof (cases rep)
  case NetworkError
  then show ?thesis by (simp add: updateRates_def)
next
  case MalformedBody
  then show ?thesis by (simp add: updateRates_def)
next
  case (Decoded data)
  with assms have bad: "\<not> reachable db \<or> begin_fails f
      \<or> (\<exists>n < 2 * length (validQuotes (Quotes data)). exec_fails f n) \<or> commit_fails f"
    by simp
  show ?thesis
  proof (cases "Begin f db")
    case None
    then show ?thesis by (simp add: updateRates_def Decoded)
  next
    case (Some t)
    then have t: "t = \<lparr>work = db, aborted = False, issued = 0\<rparr>" and ok: "reachable db" "\<not> begin_fails f"
      by (auto simp: Begin_def split: if_splits)
    from bad ok have "(\<exists>n < 2 * length (validQuotes (Quotes data)). exec_fails f n) \<or> commit_fails f"
      by simp
    then have "aborted (applyQuotes f now (Quotes data) t) \<or> commit_fails f"
      by (auto simp: applyQuotes_aborted t)
    then show ?thesis by (auto simp: updateRates_def Decoded Some Commit_def)
  qed
qed

lemma applyAll_Nil [simp]: "applyAll now [] db = db"
  by (simp add: applyAll_def)

lemma applyAll_Cons [simp]:
  "applyAll now ((code, r) # vs) db = applyAll now vs (appendHistory code r now (upsertRate code r now db))"
  by (simp add: applyAll_def)

lemma step_rates:
  "exchange_rates (appendHistory code r now (upsertRate code r now db))
     = (exchange_rates db)(code \<mapsto> \<lparr>rate_to_base = r, updated_at = now\<rparr>)"
  by (simp add: appendHistory_def upsertRate_def)

lemma step_history:
  "rate_history (appendHistory code r now (upsertRate code r now db))
     = rate_history db @ [\<lparr>currency_code = code, rate = r, recorded_at = now\<rparr>]"
  by (simp add: appendHistory_def upsertRate_def)

lemma step_reachable:
  "reachable (appendHistory code r now (upsertRate code r now db)) = reachable db"
  by (simp add: appendHistory_def upsertRate_def)

lemma applyAll_history:
  "rate_history (applyAll now vs db) = rate_history db @ map (historyRow now) vs"
proof (induction vs arbitrary: db)
  case Nil
  then show ?case by simp
next
  case (Cons a vs)
  obtain c r where a: "a = (c, r)" by (cases a)
  show ?case by (simp add: a Cons.IH step_history historyRow_def)
qed

lemma applyAll_reachable: "reachable (applyAll now vs db) = reachable db"
proof (induction vs arbitrary: db)
  case Nil
  then show ?case by simp
next
  case (Cons a vs)
  obtain c r where a: "a = (c, r)" by (cases a)
  show ?case by (simp add: a Cons.IH step_reachable)
qed

lemma applyAll_dom:
  "dom (exchange_rates (applyAll now vs db)) = dom (exchange_rates db) \<union> fst ` set vs"
proof (induction vs arbitrary: db)
  case Nil
  then show ?case by simp
next
  case (Cons a vs)
  obtain c r where a: "a = (c, r)" by (cases a)
  have "dom (exchange_rates (appendHistory c r now (upsertRate c r now db)))
          = insert c (dom (exchange_rates db))"
    unfolding step_rates by (simp only: dom_fun_upd option.simps if_False)
  then show ?case by (simp add: a Cons.IH)
qed

lemma applyAll_other:
  "code \<notin> fst ` set vs \<Longrightarrow> exchange_rates (applyAll now vs db) code = exchange_rates db code"
proof (induction vs arbitrary: db)
  case Nil
  then show ?case by simp
next
  case (Cons a vs)
  obtain c r where a: "a = (c, r)" by (cases a)
  from Cons.prems have "code \<noteq> c" "code \<notin> fst ` set vs" by (auto simp: a)
  then show ?case by (simp add: a Cons.IH step_rates)
qed

lemma applyAll_written:
  "code \<in> fst ` set vs \<Longrightarrow>
     \<exists>r. (code, r) \<in> set vs \<and>
         exchange_rates (applyAll now vs db) code = Some \<lparr>rate_to_base = r, updated_at = now\<rparr>"
proof (induction vs arbitrary: db)
  case Nil
  then show ?case by simp
next
  case (Cons a vs)
  obtain c r where a: "a = (c, r)" by (cases a)
  show ?case
  proof (cases "code \<in> fst ` set vs")
    case True
    from Cons.IH [OF True, of "appendHistory c r now (upsertRate c r now db)"]
    obtain r' where "(code, r') \<in> set vs"
      "exchange_rates (applyAll now vs (appendHistory c r now (upsertRate c r now db))) code
         = Some \<lparr>rate_to_base = r', updated_at = now\<rparr>" by blast
    then show ?thesis by (intro exI [of _ r']) (simp add: a)
  next
    case False
    with Cons.prems have c: "c = code" by (auto simp: a)
    have "exchange_rates (applyAll now (a # vs) db) code
            = Some \<lparr>rate_to_base = r, updated_at = now\<rparr>"
      using False by (simp add: a c applyAll_other step_rates)
    then show ?thesis by (intro exI [of _ r]) (simp add: a c)
  qed
qed

lemma validQuotes_iff:
  "(code, r) \<in> set (validQuotes qs) \<longleftrightarrow>
     length code = 3 \<and> (\<exists>pair. (pair, r) \<in> set qs \<and> code = TrimPrefix pair ''USD'')"
  by (auto simp: validQuotes_def)

lemma updateRates_noFaults:
  "updateRates noFaults now (Decoded data) (db\<lparr>reachable := True\<rparr>)
     = applyAll now (validQuotes (Quotes data)) (db\<lparr>reachable := True\<rparr>)"
proof -
  let ?t = "\<lparr>work = db\<lparr>reachable := True\<rparr>, aborted = False, issued = 0\<rparr>"
  have "\<not> aborted (applyQuotes noFaults now (Quotes data) ?t)"
    by (simp add: applyQuotes_aborted noFaults_def)
  then show ?thesis
    by (simp add: updateRates_def Begin_def Commit_def applyQuotes_work) (simp add: noFaults_def)
qed

lemma validQuotes_snapshot:
  "validQuotes (Quotes snapshot) = [(''EUR'', 9 / 10), (''JPY'', 150)]"
  by (simp add: snapshot_def validQuotes_def TrimPrefix_def)

section \<open>Properties of the decimal operations\<close>

text \<open>
  \<open>Div\<close> returns the quotient rounded half away from zero to 16 fractional digits, and
  \<open>Round\<close> rounds half away from zero to the requested number of digits: the integer
  computations of the library are related to \<open>rha\<close>, and \<open>rha\<close> to \<open>roundHalfAway\<close> on the
  rationals.
\<close>

lemma half_div:
  fixes A B :: int
  assumes "0 \<le> A" "0 < B"
  shows "(2 * A + B) div (2 * B) = A div B + (if B \<le> 2 * (A mod B) then 1 else 0)"
proof -
  define k m where "k = A div B" and "m = A mod B"
  have A: "A = B * k + m" by (simp add: k_def m_def)
  have m: "0 \<le> m" "m < B" using assms by (simp_all add: m_def)
  have "2 * A + B = (2 * m + B) + k * (2 * B)" by (simp add: A algebra_simps)
  then have "(2 * A + B) div (2 * B) = (2 * m + B) div (2 * B) + k"
    using assms by (simp only: div_mult_self1 [of "2 * B" "2 * m + B" k])
  moreover have "(2 * m + B) div (2 * B) = (if B \<le> 2 * m then 1 else 0)"
  proof (cases "B \<le> 2 * m")
    case True
    have "(2 * m + B) div (2 * B) = 1"
      by (rule int_div_pos_eq [where r = "2 * m - B"]) (use True m in auto)
    with True show ?thesis by simp
  next
    case False
    have "(2 * m + B) div (2 * B) = 0"
      by (rule div_pos_pos_trivial) (use False m in auto)
    with False show ?thesis by simp
  qed
  ultimately show ?thesis by (simp add: k_def m_def)
qed

lemma rha_quorem:
  fixes a b :: int
  assumes "b \<noteq> 0"
  shows "rha a b =
     (if 2 * \<bar>a smod b\<bar> < \<bar>b\<bar> then a sdiv b
      else if sgn a * sgn b < 0 then a sdiv b - 1 else a sdiv b + 1)"
proof -
  have abs_smod: "\<bar>a smod b\<bar> = \<bar>a\<bar> mod \<bar>b\<bar>"
    using assms by (cases "a = 0") (simp_all add: signed_modulo_int_def abs_mult abs_sgn_eq)
  have hd: "(2 * \<bar>a\<bar> + \<bar>b\<bar>) div (2 * \<bar>b\<bar>) = \<bar>a\<bar> div \<bar>b\<bar> + (if \<bar>b\<bar> \<le> 2 * (\<bar>a\<bar> mod \<bar>b\<bar>) then 1 else 0)"
    using assms by (intro half_div) auto
  show ?thesis
  proof (cases "a = 0")
    case True
    then show ?thesis using assms by (simp add: rha_def)
  next
    case False
    then show ?thesis
      using assms unfolding rha_def hd abs_smod signed_divide_int_def
      by (auto simp: sgn_if algebra_simps)
  qed
qed

lemma rha_rat:
  assumes "b \<noteq> 0"
  shows "(of_int (rha a b) :: rat)
       = sgn (of_int a / of_int b) * of_int \<lfloor>\<bar>of_int a / of_int b :: rat\<bar> + 1 / 2\<rfloor>"
proof -
  have "\<bar>of_int a / of_int b :: rat\<bar> + 1 / 2 = of_int (2 * \<bar>a\<bar> + \<bar>b\<bar>) / of_int (2 * \<bar>b\<bar>)"
    using assms by (simp add: field_simps)
  then have "\<lfloor>\<bar>of_int a / of_int b :: rat\<bar> + 1 / 2\<rfloor> = (2 * \<bar>a\<bar> + \<bar>b\<bar>) div (2 * \<bar>b\<bar>)"
    by (simp only: floor_divide_of_int_eq)
  moreover have "sgn (of_int a / of_int b :: rat) = of_int (sgn a * sgn b)"
    by (auto simp: sgn_if zero_less_divide_iff divide_less_0_iff)
  ultimately show ?thesis by (simp add: rha_def)
qed

lemma wrap32_id: "MinInt32 \<le> n \<Longrightarrow> n \<le> MaxInt32 \<Longrightarrow> wrap32 n = n"
  by (simp add: wrap32_def MinInt32_def MaxInt32_def)

lemma wrap32_add: "wrap32 (wrap32 a + b) = wrap32 (a + b)"
proof -
  have "(a + 2147483648) mod 4294967296 - 2147483648 + b + 2147483648
        = (a + 2147483648) mod 4294967296 + b" by simp
  then have "wrap32 (wrap32 a + b) = ((a + 2147483648) mod 4294967296 + b) mod 4294967296 - 2147483648"
    by (simp add: wrap32_def)
  also have "\<dots> = (a + 2147483648 + b) mod 4294967296 - 2147483648"
    by (simp only: mod_add_left_eq)
  also have "a + 2147483648 + b = a + b + 2147483648" by simp
  finally show ?thesis by (simp only: wrap32_def)
qed

lemma Div_rha:
  assumes v2: "d_value d2 \<noteq> 0"
    and x2: "MinInt32 \<le> d_exp d2" "d_exp d2 \<le> MaxInt32"
    and x1: "MinInt32 \<le> d_exp d"
    and e: "MinInt32 \<le> d_exp d - d_exp d2 + 16" "d_exp d - d_exp d2 + 16 \<le> MaxInt32"
  shows "Div d d2 = Inr \<lparr>d_value = rha (scaledNum d d2) (scaledDen d d2), d_exp = - 16\<rparr>"
proof (cases "d_exp d - d_exp d2 + 16 < 0")
  case True
  define aa where "aa = d_value d"
  define bb where "bb = d_value d2 * 10 ^ nat (- (d_exp d - d_exp d2 + 16))"
  have bb0: "bb \<noteq> 0" using v2 by (simp add: bb_def)
  have qr: "QuoRem d d2 16 = Inr (\<lparr>d_value = aa sdiv bb, d_exp = - 16\<rparr>,
                                   \<lparr>d_value = aa smod bb, d_exp = d_exp d\<rparr>)"
    using True v2 e by (simp add: QuoRem_def Let_def aa_def bb_def)
  have w: "wrap32 (d_exp d + 16) = d_exp d + 16"
    using True x1 x2 by (intro wrap32_id) (simp_all add: MinInt32_def MaxInt32_def)
  have ab: "\<bar>bb\<bar> = \<bar>d_value d2\<bar> * 10 ^ nat (d_exp d2 - (d_exp d + 16))"
    by (simp add: bb_def abs_mult algebra_simps)
  have cmp: "Cmp \<lparr>d_value = \<bar>aa smod bb\<bar> * 2, d_exp = d_exp d + 16\<rparr> (Abs d2) < 0
             \<longleftrightarrow> 2 * \<bar>aa smod bb\<bar> < \<bar>bb\<bar>"
    using True by (simp add: Cmp_def RescalePair_def rescale_def Abs_def ab mult.commute)
  have sg: "sgn (d_value d) * sgn (d_value d2) = sgn aa * sgn bb"
    by (simp add: aa_def bb_def sgn_mult)
  have "Div d d2 = Inr \<lparr>d_value =
          (if 2 * \<bar>aa smod bb\<bar> < \<bar>bb\<bar> then aa sdiv bb
           else if sgn aa * sgn bb < 0 then aa sdiv bb - 1 else aa sdiv bb + 1), d_exp = - 16\<rparr>"
    using cmp sg by (simp add: Div_def DivisionPrecision_def DivRound_def qr w Let_def Sub_def Add_def
        RescalePair_def New_def)
  moreover have "scaledNum d d2 = aa" "scaledDen d d2 = bb"
    using True by (simp_all add: scaledNum_def scaledDen_def aa_def bb_def)
  ultimately show ?thesis
    by (simp only: rha_quorem [OF bb0])
next
  case False
  define aa where "aa = d_value d * 10 ^ nat (d_exp d - d_exp d2 + 16)"
  define bb where "bb = d_value d2"
  have bb0: "bb \<noteq> 0" using v2 by (simp add: bb_def)
  have qr: "QuoRem d d2 16 = Inr (\<lparr>d_value = aa sdiv bb, d_exp = - 16\<rparr>,
                                   \<lparr>d_value = aa smod bb, d_exp = wrap32 (d_exp d2 - 16)\<rparr>)"
    using False v2 e by (simp add: QuoRem_def Let_def aa_def bb_def)
  have w: "wrap32 (wrap32 (d_exp d2 - 16) + 16) = d_exp d2"
    using x2 by (simp add: wrap32_add wrap32_id)
  have cmp: "Cmp \<lparr>d_value = \<bar>aa smod bb\<bar> * 2, d_exp = d_exp d2\<rparr> (Abs d2) < 0
             \<longleftrightarrow> 2 * \<bar>aa smod bb\<bar> < \<bar>bb\<bar>"
    by (simp add: Cmp_def Abs_def bb_def mult.commute)
  have sg: "sgn (d_value d) * sgn (d_value d2) = sgn aa * sgn bb"
    by (simp add: aa_def bb_def sgn_mult)
  have "Div d d2 = Inr \<lparr>d_value =
          (if 2 * \<bar>aa smod bb\<bar> < \<bar>bb\<bar> then aa sdiv bb
           else if sgn aa * sgn bb < 0 then aa sdiv bb - 1 else aa sdiv bb + 1), d_exp = - 16\<rparr>"
    using cmp sg by (simp add: Div_def DivisionPrecision_def DivRound_def qr w Let_def Sub_def Add_def
        RescalePair_def New_def)
  moreover have "scaledNum d d2 = aa" "scaledDen d d2 = bb"
    using False by (simp_all add: scaledNum_def scaledDen_def aa_def bb_def)
  ultimately show ?thesis
    by (simp only: rha_quorem [OF bb0])
qed

lemma powi_nat_neg: "e < 0 \<Longrightarrow> (10::rat) powi e = 1 / 10 ^ nat (- e)"
  by (simp add: power_int_def field_simps)

lemma powi_nat_pos: "0 \<le> e \<Longrightarrow> (10::rat) powi e = 10 ^ nat e"
  by (simp add: power_int_def)

lemma scaled_ratio:
  assumes "d_value d2 \<noteq> 0"
  shows "(of_int (scaledNum d d2) / of_int (scaledDen d d2) :: rat)
         = dec_val d / dec_val d2 * 10 powi 16"
proof -
  define e where "e = d_exp d - d_exp d2 + 16"
  have split: "(10::rat) powi d_exp d / 10 powi d_exp d2 * 10 powi 16 = 10 powi e"
    by (simp add: e_def power_int_add power_int_diff)
  have "dec_val d / dec_val d2 * 10 powi 16
        = of_int (d_value d) / of_int (d_value d2) * (10 powi d_exp d / 10 powi d_exp d2 * 10 powi 16)"
    by (simp add: dec_val_def)
  also have "\<dots> = of_int (d_value d) / of_int (d_value d2) * 10 powi e"
    by (simp only: split)
  finally have rhs: "dec_val d / dec_val d2 * 10 powi 16
        = of_int (d_value d) / of_int (d_value d2) * 10 powi e" .
  show ?thesis
  proof (cases "e < 0")
    case True
    then show ?thesis
      using assms unfolding rhs by (simp add: scaledNum_def scaledDen_def e_def [symmetric] powi_nat_neg)
  next
    case False
    then show ?thesis
      using assms unfolding rhs by (simp add: scaledNum_def scaledDen_def e_def [symmetric] powi_nat_pos)
  qed
qed

lemma roundHalfAway_scaled:
  "roundHalfAway p x = sgn (x * 10 powi p) * of_int \<lfloor>\<bar>x * 10 powi p\<bar> + 1 / 2\<rfloor> * 10 powi (- p)"
proof -
  have pos: "(0::rat) < 10 powi p" by (simp add: zero_less_power_int)
  then show ?thesis
    by (simp add: roundHalfAway_def abs_mult sgn_mult)
qed

lemma scaledDen_nonzero: "d_value d2 \<noteq> 0 \<Longrightarrow> scaledDen d d2 \<noteq> 0"
  by (simp add: scaledDen_def Let_def)

lemma dec_val_rha:
  assumes "b \<noteq> 0" and "(of_int a / of_int b :: rat) = x * 10 powi p"
  shows "dec_val \<lparr>d_value = rha a b, d_exp = - p\<rparr> = roundHalfAway p x"
  using assms by (simp add: dec_val_def rha_rat roundHalfAway_scaled)

lemma Div_value:
  assumes "d_value d2 \<noteq> 0"
    and "MinInt32 \<le> d_exp d2" "d_exp d2 \<le> MaxInt32"
    and "MinInt32 \<le> d_exp d"
    and "MinInt32 \<le> d_exp d - d_exp d2 + 16" "d_exp d - d_exp d2 + 16 \<le> MaxInt32"
  shows "\<exists>r. Div d d2 = Inr r \<and> dec_val r = roundHalfAway 16 (dec_val d / dec_val d2)"
proof -
  have "dec_val \<lparr>d_value = rha (scaledNum d d2) (scaledDen d d2), d_exp = - 16\<rparr>
        = roundHalfAway 16 (dec_val d / dec_val d2)"
    using assms(1) by (intro dec_val_rha scaledDen_nonzero scaled_ratio)
  then show ?thesis
    using Div_rha [OF assms] by simp
qed

lemma powi_nat_pos': "0 \<le> e \<Longrightarrow> (10::rat) ^ nat e = 10 powi e"
  by (simp add: power_int_def)

lemma rha_ten: "rha w 10 = sgn w * ((\<bar>w\<bar> + 5) div 10)"
proof -
  have "(2 * \<bar>w\<bar> + 10) div 20 = (2 * (\<bar>w\<bar> + 5)) div (2 * 10)" by simp
  also have "\<dots> = (\<bar>w\<bar> + 5) div 10" by (rule div_mult_mult1) simp
  finally show ?thesis by (simp add: rha_def)
qed

lemma round_step:
  fixes w :: int
  shows "(let v = (if w < 0 then w - 5 else w + 5); q = v div 10; m = v mod 10
          in (if q < 0 \<and> m \<noteq> 0 then q + 1 else q)) = rha w 10"
proof (cases "w < 0")
  case False
  then have "0 \<le> (w + 5) div 10" by (simp add: pos_imp_zdiv_nonneg_iff)
  then show ?thesis using False by (simp add: rha_ten Let_def sgn_if)
next
  case True
  define u where "u = 5 - w"
  have u5: "5 < u" using True by (simp add: u_def)
  have q: "(- u) div 10 < 0" using u5 by (simp add: neg_imp_zdiv_neg_iff)
  have "u mod 10 < 10" by simp
  then have "u mod 10 \<noteq> 10" by linarith
  then have fixup: "(if (- u) mod 10 \<noteq> 0 then (- u) div 10 + 1 else (- u) div 10) = - (u div 10)"
    by (simp add: zdiv_zminus1_eq_if zmod_zminus1_eq_if)
  have "\<bar>w\<bar> + 5 = u" using True by (simp add: u_def)
  then have r: "rha w 10 = - (u div 10)" using True by (simp add: rha_ten sgn_if)
  have "w - 5 = - u" by (simp add: u_def)
  then have "(let v = (if w < 0 then w - 5 else w + 5); q = v div 10; m = v mod 10
          in (if q < 0 \<and> m \<noteq> 0 then q + 1 else q))
        = (if (- u) mod 10 \<noteq> 0 then (- u) div 10 + 1 else (- u) div 10)"
    using True q by (simp add: Let_def)
  then show ?thesis by (simp only: fixup r)
qed

lemma Round_value: "dec_val (Round d p) = roundHalfAway p (dec_val d)"
proof (cases "d_exp d = - p")
  case True
  have fl: "\<lfloor>rat_of_int \<bar>d_value d\<bar> + 1 / 2\<rfloor> = \<bar>d_value d\<bar>"
    by (rule floor_unique) simp_all
  have "(10::rat) powi (- p) * 10 powi p = 1"
    by (simp add: power_int_minus)
  then have sc: "dec_val d * 10 powi p = rat_of_int (d_value d)"
    by (simp add: dec_val_def True mult.assoc)
  have "sgn (rat_of_int (d_value d)) * rat_of_int \<bar>d_value d\<bar> = rat_of_int (d_value d)"
    by (simp add: sgn_if)
  then have "sgn (rat_of_int (d_value d)) * rat_of_int \<lfloor>\<bar>rat_of_int (d_value d)\<bar> + 1 / 2\<rfloor>
             = rat_of_int (d_value d)"
    using fl by simp
  then have "roundHalfAway p (dec_val d) = dec_val d"
    unfolding roundHalfAway_scaled sc by (simp add: dec_val_def True)
  then show ?thesis using True by (simp add: Round_def)
next
  case ne: False
  have ex: "d_exp (rescale d (- p - 1)) + 1 = - p"
    by (simp add: rescale_def)
  have "Round d p = \<lparr>d_value = rha (d_value (rescale d (- p - 1))) 10,
                         d_exp = d_exp (rescale d (- p - 1)) + 1\<rparr>"
    using ne round_step [of "d_value (rescale d (- p - 1))"]
    by (simp add: Round_def Let_def)
  then have R: "Round d p = \<lparr>d_value = rha (d_value (rescale d (- p - 1))) 10, d_exp = - p\<rparr>"
    by (simp only: ex)
  show ?thesis
  proof (cases "d_exp d < - p")
    case False
    with ne have gt: "- p < d_exp d" by simp
    define k where "k = nat (d_exp d + p + 1)"
    have w: "d_value (rescale d (- p - 1)) = d_value d * 10 ^ k"
      using gt by (simp add: rescale_def k_def algebra_simps)
    have "(of_int (d_value d * 10 ^ k) / of_int 10 :: rat) = dec_val d * 10 powi p"
    proof -
      have "(10::rat) ^ k = 10 powi (d_exp d + p + 1)" using gt by (simp add: k_def powi_nat_pos')
      also have "\<dots> = 10 powi d_exp d * 10 powi p * 10" by (simp add: power_int_add)
      finally show ?thesis by (simp add: dec_val_def)
    qed
    then show ?thesis unfolding R w by (intro dec_val_rha) simp_all
  next
    case True
    define k where "k = nat (- p - 1 - d_exp d)"
    define v where "v = d_value d"
    define T where "T = (10::int) ^ k"
    have T: "0 < T" by (simp add: T_def)
    have w: "d_value (rescale d (- p - 1)) = (if k = 0 then v else v sdiv T)"
      using True by (auto simp: rescale_def k_def v_def T_def)
    have w': "d_value (rescale d (- p - 1)) = v sdiv T"
      unfolding w by (simp add: T_def)
    have absw: "\<bar>v sdiv T\<bar> = \<bar>v\<bar> div T"
      using T by (cases "v = 0") (simp_all add: signed_divide_int_def abs_mult abs_sgn_eq pos_imp_zdiv_nonneg_iff)
    have "(\<bar>v\<bar> div T + 5) div 10 = (\<bar>v\<bar> + 5 * T) div (T * 10)"
    proof -
      have "(\<bar>v\<bar> + 5 * T) div (T * 10) = ((\<bar>v\<bar> + 5 * T) div T) div 10"
        using T by (simp add: zdiv_zmult2_eq)
      also have "(\<bar>v\<bar> + 5 * T) div T = \<bar>v\<bar> div T + 5" using T by simp
      finally show ?thesis by simp
    qed
    also have "\<dots> = (2 * \<bar>v\<bar> + \<bar>T * 10\<bar>) div (2 * \<bar>T * 10\<bar>)"
    proof -
      have "(2 * (\<bar>v\<bar> + 5 * T)) div (2 * (T * 10)) = (\<bar>v\<bar> + 5 * T) div (T * 10)"
        by (rule div_mult_mult1) simp
      moreover have "2 * \<bar>v\<bar> + \<bar>T * 10\<bar> = 2 * (\<bar>v\<bar> + 5 * T)" using T by (simp add: abs_mult)
      moreover have "2 * \<bar>T * 10\<bar> = 2 * (T * 10)" using T by (simp add: abs_mult)
      ultimately show ?thesis by simp
    qed
    finally have mag: "(\<bar>v sdiv T\<bar> + 5) div 10 = (2 * \<bar>v\<bar> + \<bar>T * 10\<bar>) div (2 * \<bar>T * 10\<bar>)"
      by (simp only: absw)
    have zero: "(2 * \<bar>v\<bar> + \<bar>T * 10\<bar>) div (2 * \<bar>T * 10\<bar>) = 0" if "v sdiv T = 0"
    proof -
      from that absw have "\<bar>v\<bar> div T = 0" by simp
      then show ?thesis using mag that by simp
    qed
    have sg: "sgn (v sdiv T) = sgn v" if "v sdiv T \<noteq> 0"
      using that T sgn_sdiv_eq_sgn_mult [of v T] by (simp add: sgn_mult)
    have eq: "rha (v sdiv T) 10 = rha v (T * 10)"
    proof (cases "v sdiv T = 0")
      case True
      then show ?thesis using zero by (simp add: rha_def)
    next
      case False
      have "rha (v sdiv T) 10 = sgn (v sdiv T) * ((\<bar>v sdiv T\<bar> + 5) div 10)"
        by (rule rha_ten)
      also have "\<dots> = sgn v * ((2 * \<bar>v\<bar> + \<bar>T * 10\<bar>) div (2 * \<bar>T * 10\<bar>))"
        by (simp only: sg [OF False] mag)
      also have "\<dots> = rha v (T * 10)"
        using T by (simp add: rha_def sgn_mult)
      finally show ?thesis .
    qed
    have ratio: "(of_int v / of_int (T * 10) :: rat) = dec_val d * 10 powi p"
    proof -
      have "(of_int (T * 10) :: rat) = 10 ^ k * 10" by (simp add: T_def)
      also have "\<dots> = 10 powi (- p - 1 - d_exp d) * 10 powi 1"
        using True by (simp add: k_def powi_nat_pos')
      also have "\<dots> = 10 powi (- p - 1 - d_exp d + 1)"
        by (rule power_int_add [symmetric]) simp
      also have "- p - 1 - d_exp d + 1 = - (p + d_exp d)" by simp
      finally have t10: "(of_int (T * 10) :: rat) = 10 powi (- (p + d_exp d))" .
      have "(of_int v / of_int (T * 10) :: rat) = of_int v * 10 powi (p + d_exp d)"
        by (simp only: t10 power_int_minus divide_inverse inverse_inverse_eq)
      also have "\<dots> = of_int v * (10 powi p * 10 powi d_exp d)"
        by (simp add: power_int_add)
      finally show ?thesis by (simp add: dec_val_def v_def mult_ac)
    qed
    have "T * 10 \<noteq> 0" using T by simp
    then have "dec_val \<lparr>d_value = rha v (T * 10), d_exp = - p\<rparr> = roundHalfAway p (dec_val d)"
      using ratio by (rule dec_val_rha)
    then show ?thesis by (simp only: R w' eq)
  qed
qed

lemma roundHalfAway_neg: "roundHalfAway p (- x) = - roundHalfAway p x"
  by (simp add: roundHalfAway_def)

lemma roundHalfAway_exact:
  assumes "x = of_int n * 10 powi (- p)"
  shows "roundHalfAway p x = x"
proof -
  have "(10::rat) powi (- p) * 10 powi p = 1"
    by (simp add: power_int_minus)
  then have sc: "x * 10 powi p = rat_of_int n"
    by (simp add: assms mult.assoc)
  have fl: "\<lfloor>rat_of_int \<bar>n\<bar> + 1 / 2\<rfloor> = \<bar>n\<bar>"
    by (rule floor_unique) simp_all
  have "sgn (rat_of_int n) * rat_of_int \<bar>n\<bar> = rat_of_int n"
    by (simp add: sgn_if)
  then have "sgn (rat_of_int n) * rat_of_int \<lfloor>\<bar>rat_of_int n\<bar> + 1 / 2\<rfloor> = rat_of_int n"
    using fl by simp
  then show ?thesis
    unfolding roundHalfAway_scaled sc by (simp add: assms)
qed

lemma dec_val_exact:
  assumes "- p \<le> d_exp d"
  shows "roundHalfAway p (dec_val d) = dec_val d"
proof -
  have "(10::rat) powi d_exp d = 10 powi (d_exp d + p) * 10 powi (- p)"
    by (simp add: power_int_add [symmetric])
  also have "(10::rat) powi (d_exp d + p) = of_int (10 ^ nat (d_exp d + p))"
    using assms by (simp add: power_int_def)
  finally have "dec_val d = of_int (d_value d * 10 ^ nat (d_exp d + p)) * 10 powi (- p)"
    by (simp add: dec_val_def)
  then show ?thesis by (rule roundHalfAway_exact)
qed

lemma roundHalfAway_error: "\<bar>roundHalfAway p x - x\<bar> \<le> 10 powi (- p) / 2"
proof -
  define y where "y = \<bar>x\<bar> * 10 powi p"
  define n where "n = \<lfloor>y + 1 / 2\<rfloor>"
  have pos: "(0::rat) < 10 powi (- p)" by (simp add: zero_less_power_int)
  have inv: "(10::rat) powi p * 10 powi (- p) = 1" by (simp add: power_int_minus)
  have "of_int n \<le> y + 1 / 2" "y + 1 / 2 < of_int n + 1"
    unfolding n_def by linarith+
  then have d: "\<bar>of_int n - y\<bar> \<le> 1 / 2" by linarith
  have x: "x = sgn x * (y * 10 powi (- p))"
    by (simp add: y_def mult.assoc inv sgn_mult_abs)
  have "roundHalfAway p x - x = sgn x * ((of_int n - y) * 10 powi (- p))"
    unfolding roundHalfAway_def y_def [symmetric] n_def [symmetric]
    by (subst (2) x) (simp add: algebra_simps)
  then have "\<bar>roundHalfAway p x - x\<bar> = \<bar>sgn x\<bar> * (\<bar>of_int n - y\<bar> * 10 powi (- p))"
    using pos by (simp add: abs_mult)
  also have "\<dots> \<le> 1 * (1 / 2 * 10 powi (- p))"
    using d pos by (intro mult_mono mult_right_mono) (auto simp: abs_sgn_eq)
  finally show ?thesis by simp
qed

section \<open>Properties of \<open>handleConvert\<close>\<close>

lemma Mul_value:
  assumes "MinInt32 \<le> d_exp d + d_exp d2" "d_exp d + d_exp d2 \<le> MaxInt32"
  shows "\<exists>m. Mul d d2 = Inr m \<and> d_exp m = d_exp d + d_exp d2 \<and> dec_val m = dec_val d * dec_val d2"
  using assms by (simp add: Mul_def Let_def dec_val_def power_int_add)

lemma handleConvert_Json:
  assumes f: "QueryRow db (ToUpper up (Get q ''from'')) = Some rowFrom"
    and t: "QueryRow db (ToUpper up (Get q ''to'')) = Some rowTo"
    and np: "noPanic (amountOf q) (rate_to_base rowTo) (rate_to_base rowFrom)"
  shows "\<exists>res. handleConvert up db q
             = (Json res, [SelectRate (ToUpper up (Get q ''from'')), SelectRate (ToUpper up (Get q ''to''))])
           \<and> c_from res = ToUpper up (Get q ''from'') \<and> c_to res = ToUpper up (Get q ''to'')
           \<and> c_amount res = amountOf q
           \<and> dec_val (c_result res)
               = convertValue (dec_val (amountOf q)) (dec_val (rate_to_base rowTo))
                   (dec_val (rate_to_base rowFrom))"
proof -
  let ?a = "amountOf q" and ?rt = "rate_to_base rowTo" and ?rf = "rate_to_base rowFrom"
  from np have rng: "MinInt32 \<le> d_exp ?a + d_exp ?rt" "d_exp ?a + d_exp ?rt \<le> MaxInt32"
    and nz: "d_value ?rf \<noteq> 0"
    and rf: "MinInt32 \<le> d_exp ?rf" "d_exp ?rf \<le> MaxInt32"
    and e: "MinInt32 \<le> d_exp ?a + d_exp ?rt - d_exp ?rf + 16"
           "d_exp ?a + d_exp ?rt - d_exp ?rf + 16 \<le> MaxInt32"
    by (simp_all add: noPanic_def isDecimal_def)
  from Mul_value [OF rng] obtain m where m: "Mul ?a ?rt = Inr m"
    "d_exp m = d_exp ?a + d_exp ?rt" "dec_val m = dec_val ?a * dec_val ?rt" by blast
  have "\<exists>r. Div m ?rf = Inr r \<and> dec_val r = roundHalfAway 16 (dec_val m / dec_val ?rf)"
    using nz rf rng e by (intro Div_value) (simp_all add: m(2))
  then obtain r where r: "Div m ?rf = Inr r" "dec_val r = roundHalfAway 16 (dec_val m / dec_val ?rf)"
    by blast
  have "handleConvert up db q
        = (Json \<lparr>c_from = ToUpper up (Get q ''from''), c_to = ToUpper up (Get q ''to''),
                  c_amount = ?a, c_result = Round r 4\<rparr>,
           [SelectRate (ToUpper up (Get q ''from'')), SelectRate (ToUpper up (Get q ''to''))])"
    by (simp add: handleConvert_def Let_def f t m(1) r(1))
  then show ?thesis
    by (simp add: Round_value r(2) m(3) convertValue_def)
qed

lemma handleConvert_404:
  assumes "QueryRow db (ToUpper up (Get q ''from'')) = None \<or> QueryRow db (ToUpper up (Get q ''to'')) = None"
  shows "handleConvert up db q
           = (HttpError ''Divisa no encontrada'' 404,
              [SelectRate (ToUpper up (Get q ''from'')), SelectRate (ToUpper up (Get q ''to''))])"
  using assms by (auto simp: handleConvert_def Let_def split: option.splits)

lemmas parse_defs = NewFromString_def notE_def notPoint_def ParseInt_def ParseInt32_def digitVal_def
  MinInt32_def MaxInt32_def

lemmas request_defs = Get_def ToUpper_def isASCII_def upperByte_def TrimPrefix_def

lemma Get_Cons_other: "k \<noteq> key \<Longrightarrow> Get ((k, v) # q) key = Get q key"
  by (simp add: Get_def)

lemma Get_Cons_same: "Get ((key, v) # q) key = v"
  by (simp add: Get_def)

lemma Get_absent: "map_of q key = None \<Longrightarrow> Get q key = []"
  by (simp add: Get_def)

lemma NewFromString_empty: "NewFromString [] = Inl ''cannot convert to decimal''"
  by (simp add: parse_defs)

lemma NewFromString_one: "NewFromString ''1'' = Inr (NewFromInt 1)"
  by (simp add: parse_defs NewFromInt_def)

lemma amountOf_one: "amountOf ((''amount'', ''1'') # q) = NewFromInt 1"
  by (simp add: amountOf_def Get_Cons_same NewFromString_one IsZero_def NewFromInt_def)

lemma amountOf_parsed:
  "NewFromString (Get q ''amount'') = Inr a \<Longrightarrow> d_value a \<noteq> 0 \<Longrightarrow> amountOf q = a"
  by (simp add: amountOf_def IsZero_def)

lemma amountOf_default:
  assumes "map_of q ''amount'' = None \<or> (\<exists>e. NewFromString (Get q ''amount'') = Inl e)
           \<or> (\<exists>d. NewFromString (Get q ''amount'') = Inr d \<and> IsZero d)"
  shows "amountOf q = NewFromInt 1"
  using assms
  by (auto simp: amountOf_def Get_absent NewFromString_empty IsZero_def zeroDecimal_def)

lemma handleConvert_amount:
  assumes "amountOf q' = amountOf q" "Get q' ''from'' = Get q ''from''" "Get q' ''to'' = Get q ''to''"
  shows "handleConvert up db q' = handleConvert up db q"
  using assms by (simp add: handleConvert_def)

lemma handleConvert_not_400: "fst (handleConvert up db q) \<noteq> HttpError m 400"
  by (simp add: handleConvert_def Let_def split: option.splits sum.splits)

lemmas convert_defs = handleConvert_def amountOf_def QueryRow_def IsZero_def NewFromInt_def
  zeroDecimal_def Mul_def Div_def DivRound_def QuoRem_def DivisionPrecision_def Cmp_def Abs_def
  Add_def Sub_def New_def RescalePair_def wrap32_def Round_def rescale_def Let_def

lemma dec_val_zero_iff: "dec_val d = 0 \<longleftrightarrow> d_value d = 0"
  by (simp add: dec_val_def)

lemma handleConvert_div0:
  assumes "QueryRow db (ToUpper up (Get q ''from'')) = Some rowFrom"
    and "QueryRow db (ToUpper up (Get q ''to'')) = Some rowTo"
    and "d_value (rate_to_base rowFrom) = 0"
    and "MinInt32 \<le> d_exp (amountOf q) + d_exp (rate_to_base rowTo)"
    and "d_exp (amountOf q) + d_exp (rate_to_base rowTo) \<le> MaxInt32"
  shows "fst (handleConvert up db q) = Panicked ''decimal division by 0''"
  using assms
  by (simp add: handleConvert_def Let_def Mul_def Div_def DivRound_def QuoRem_def)

lemma handleConvert_Json_noPanic:
  assumes f: "QueryRow db (ToUpper up (Get q ''from'')) = Some rowFrom"
    and t: "QueryRow db (ToUpper up (Get q ''to'')) = Some rowTo"
    and j: "fst (handleConvert up db q) = Json res"
    and d: "isDecimal (rate_to_base rowFrom)"
  shows "noPanic (amountOf q) (rate_to_base rowTo) (rate_to_base rowFrom)"
proof -
  let ?a = "amountOf q" and ?rt = "rate_to_base rowTo" and ?rf = "rate_to_base rowFrom"
  from j f t obtain m r where m: "Mul ?a ?rt = Inr m" and r: "Div m ?rf = Inr r"
    by (auto simp: handleConvert_def Let_def split: sum.splits)
  from m have rng: "MinInt32 \<le> d_exp ?a + d_exp ?rt" "d_exp ?a + d_exp ?rt \<le> MaxInt32"
    and em: "d_exp m = d_exp ?a + d_exp ?rt"
    by (auto simp: Mul_def Let_def split: if_splits)
  from r obtain qr where qr: "QuoRem m ?rf 16 = Inr qr"
    by (auto simp: Div_def DivRound_def DivisionPrecision_def split: sum.splits)
  then have "d_value ?rf \<noteq> 0" "MinInt32 \<le> d_exp m - d_exp ?rf + 16" "d_exp m - d_exp ?rf + 16 \<le> MaxInt32"
    by (auto simp: QuoRem_def Let_def split: if_splits)
  then show ?thesis using rng d by (simp add: noPanic_def em)
qed

lemma floor_small: "0 \<le> x \<Longrightarrow> x < 1 \<Longrightarrow> \<lfloor>x :: rat\<rfloor> = 0"
  by (rule floor_unique) simp_all

lemma convertValue_neg: "convertValue (- x) rt rf = - convertValue x rt rf"
  by (simp add: convertValue_def roundHalfAway_neg)

lemma convertValue_error:
  "\<bar>convertValue x rt rf - x * rt / rf\<bar> \<le> 10 powi (- 4) / 2 + 10 powi (- 16) / 2"
proof -
  let ?y = "x * rt / rf"
  have "\<bar>roundHalfAway 4 (roundHalfAway 16 ?y) - roundHalfAway 16 ?y\<bar> \<le> 10 powi (- 4) / 2"
    by (rule roundHalfAway_error)
  moreover have "\<bar>roundHalfAway 16 ?y - ?y\<bar> \<le> 10 powi (- 16) / 2"
    by (rule roundHalfAway_error)
  ultimately show ?thesis unfolding convertValue_def by linarith
qed

section \<open>Properties of \<open>handleHistory\<close>\<close>

lemma conds_hold:
  "(\<forall>c \<in> set ((if start \<noteq> [] then [RecordedAtGe start] else [])
                @ (if end \<noteq> [] then [RecordedAtLe end] else [])). condHolds tsin row c)
   \<longleftrightarrow> inWindow tsin start end (recorded_at row)"
  by (cases "start = []"; cases "end = []"; cases "tsin start"; cases "tsin end")
     (simp_all add: condHolds_def inWindow_def)

lemma conds_invalid:
  assumes "\<exists>c \<in> set ((if start \<noteq> [] then [RecordedAtGe start] else [])
                @ (if end \<noteq> [] then [RecordedAtLe end] else [])). tsin (condArg c) = None"
  shows "\<not> inWindow tsin start end t"
  using assms by (auto simp: condArg_def inWindow_def split: if_splits)

lemma sorted_desc_take:
  assumes "sorted (map f xs)"
  shows "sorted (rev (map f (take n (rev xs))))"
proof -
  have "rev (take n (rev xs)) = drop (length xs - n) xs"
    by (simp add: rev_take)
  then have "rev (map f (take n (rev xs))) = drop (length xs - n) (map f xs)"
    by (simp only: rev_map drop_map)
  then show ?thesis using assms by (simp add: sorted_wrt_drop)
qed

lemma take_all_or_full:
  "x \<in> set xs \<Longrightarrow> length (take n xs) = n \<or> x \<in> set (take n xs)"
  by (cases "n \<le> length xs") auto

lemma handleHistory_Json:
  assumes "handleHistory up tsin db q = (Json es, sent)"
  shows "length (ToUpper up (Get q ''code'')) = 3
       \<and> (\<exists>rows. es = map (entryOf (ToUpper up (Get q ''code''))) rows
            \<and> (rows = [] \<and> (\<forall>t. \<not> inWindow tsin (Get q ''start'') (Get q ''end'') t)
               \<or> rows = take 100 (rev (sort_key recorded_at
                    (filter (\<lambda>row. currency_code row = ToUpper up (Get q ''code'')
                                  \<and> inWindow tsin (Get q ''start'') (Get q ''end'') (recorded_at row))
                       (rate_history db))))))"
proof -
  let ?code = "ToUpper up (Get q ''code'')"
  let ?conds = "(if Get q ''start'' \<noteq> [] then [RecordedAtGe (Get q ''start'')] else [])
                @ (if Get q ''end'' \<noteq> [] then [RecordedAtLe (Get q ''end'')] else [])"
  from assms have len: "length ?code = 3"
    by (auto simp: handleHistory_def Let_def split: if_splits)
  with assms obtain rows where q: "Query tsin db ?code ?conds = Some rows"
    and es: "es = map (entryOf ?code) rows"
    by (auto simp: handleHistory_def Let_def entryOf_def split: option.splits)
  show ?thesis
  proof (cases "\<exists>c \<in> set ?conds. tsin (condArg c) = None")
    case True
    then have "rows = []" using q by (simp add: Query_def split: if_splits)
    moreover have "\<forall>t. \<not> inWindow tsin (Get q ''start'') (Get q ''end'') t"
      using True by (intro allI conds_invalid)
    ultimately show ?thesis using len es by blast
  next
    case False
    from q have reach: "reachable db" by (simp add: Query_def split: if_splits)
    have "Query tsin db ?code ?conds = Some (take 100 (rev (sort_key recorded_at
                    (filter (\<lambda>row. currency_code row = ?code
                                  \<and> (\<forall>c \<in> set ?conds. condHolds tsin row c))
                       (rate_history db)))))"
      unfolding Query_def by (simp only: reach False not_True_eq_False if_False)
    with q have "rows = take 100 (rev (sort_key recorded_at
                    (filter (\<lambda>row. currency_code row = ?code
                                  \<and> (\<forall>c \<in> set ?conds. condHolds tsin row c))
                       (rate_history db))))"
      by simp
    then have "rows = take 100 (rev (sort_key recorded_at
                    (filter (\<lambda>row. currency_code row = ?code
                                  \<and> inWindow tsin (Get q ''start'') (Get q ''end'') (recorded_at row))
                       (rate_history db))))"
      by (simp only: conds_hold)
    then show ?thesis using len es by blast
  qed
qed

section \<open>The claims\<close>

subsection \<open>C1: sync atomicity\<close>

text \<open>
  C1. If any step of a sync cycle fails, the Rate Store is left exactly as it was before
  the cycle: the fetch (\<open>NetworkError\<close>), the decoding of the body (\<open>MalformedBody\<close>), the
  opening of the transaction, any of the two statements issued for a valid entry, or
  the commit. In every case the store after the cycle is either the store before it or
  the store with every valid entry applied: no part of a cycle is ever published.
\<close>

theorem sync_atomicity:
  "(rep = NetworkError \<or> rep = MalformedBody \<or>
      (\<exists>data. rep = Decoded data \<and>
         (\<not> reachable db \<or> begin_fails f
          \<or> (\<exists>n < 2 * length (validQuotes (Quotes data)). exec_fails f n)
          \<or> commit_fails f))
    \<longrightarrow> updateRates f now rep db = db)
   \<and> (updateRates f now rep db = db \<or>
        (\<exists>data. rep = Decoded data \<and>
           updateRates f now rep db = applyAll now (validQuotes (Quotes data)) db))"
  using updateRates_failure [of rep db f now] updateRates_cases [of f now rep db] by blast

text \<open>
  The second statement of a cycle over the sample snapshot fails, after the upsert of
  EUR went through: the store is unchanged.
\<close>

theorem sync_atomicity_witness:
  "exec_fails secondExecFails 1 \<and> 1 < 2 * length (validQuotes (Quotes snapshot))
   \<and> updateRates secondExecFails 5000 (Decoded snapshot) emptyStore = emptyStore"
proof -
  have f: "exec_fails secondExecFails 1" by (simp add: secondExecFails_def)
  have n: "1 < 2 * length (validQuotes (Quotes snapshot))" by (simp add: validQuotes_snapshot)
  from f n have "\<exists>n < 2 * length (validQuotes (Quotes snapshot)). exec_fails secondExecFails n"
    by blast
  then have "updateRates secondExecFails 5000 (Decoded snapshot) emptyStore = emptyStore"
    using sync_atomicity [where rep = "Decoded snapshot" and db = emptyStore
        and f = secondExecFails and now = 5000]
    by blast
  with f n show ?thesis by simp
qed

subsection \<open>C3: which entries of a snapshot are applied\<close>

text \<open>
  C3 (amended). The specification says that an entry is applied only when its stripped
  code is exactly 3 letters. \<open>updateRates\<close> tests \<open>len(code) != 3\<close> and nothing else, so
  the entry \<open>USD123\<close> is applied under the code \<open>123\<close>.
\<close>

theorem sync_filter_counterexample:
  "exchange_rates
     (updateRates noFaults 5000
        (Decoded \<lparr>Success = True, Timestamp = 1700000000, Quotes = [(''USD123'', 3 / 2)]\<rparr>)
        emptyStore) ''123''
     = Some \<lparr>rate_to_base = 3 / 2, updated_at = 5000\<rparr>
   \<and> \<not> list_all isLetter ''123''"
  by (simp add: updateRates_def Begin_def Commit_def Exec_def noFaults_def emptyStore_def
      TrimPrefix_def upsertRate_def appendHistory_def isLetter_def Let_def)

text \<open>
  C3, as the code has it. In a cycle without faults, each symbol has the prefix \<open>USD\<close>
  stripped, and the entry is applied exactly when the stripped code is 3 bytes long,
  whatever the bytes are; every other entry is discarded. One history row is appended
  for each applied entry, in the order of the loop; the codes of the applied entries
  are the keys added to the current rates, each with a rate quoted for it and the time
  of the cycle, and every other current rate is left as it was.
\<close>

theorem sync_filter:
  "rate_history (updateRates noFaults now (Decoded data) (db\<lparr>reachable := True\<rparr>))
     = rate_history db @ map (historyRow now) (validQuotes (Quotes data))
   \<and> dom (exchange_rates (updateRates noFaults now (Decoded data) (db\<lparr>reachable := True\<rparr>)))
     = dom (exchange_rates db) \<union> fst ` set (validQuotes (Quotes data))
   \<and> (c \<in> fst ` set (validQuotes (Quotes data)) \<longrightarrow>
        (\<exists>r'. (c, r') \<in> set (validQuotes (Quotes data))
           \<and> exchange_rates (updateRates noFaults now (Decoded data) (db\<lparr>reachable := True\<rparr>)) c
               = Some \<lparr>rate_to_base = r', updated_at = now\<rparr>))
   \<and> (c \<notin> fst ` set (validQuotes (Quotes data)) \<longrightarrow>
        exchange_rates (updateRates noFaults now (Decoded data) (db\<lparr>reachable := True\<rparr>)) c
          = exchange_rates db c)
   \<and> ((code, r) \<in> set (validQuotes (Quotes data)) \<longleftrightarrow>
        length code = 3 \<and> (\<exists>pair. (pair, r) \<in> set (Quotes data) \<and> code = TrimPrefix pair ''USD''))"
proof -
  let ?vs = "validQuotes (Quotes data)" and ?db = "db\<lparr>reachable := True\<rparr>"
  have w: "c \<in> fst ` set ?vs \<longrightarrow>
        (\<exists>r'. (c, r') \<in> set ?vs
           \<and> exchange_rates (applyAll now ?vs ?db) c = Some \<lparr>rate_to_base = r', updated_at = now\<rparr>)"
    using applyAll_written [of c ?vs now ?db] by blast
  have o: "c \<notin> fst ` set ?vs \<longrightarrow> exchange_rates (applyAll now ?vs ?db) c = exchange_rates db c"
    using applyAll_other [of c ?vs now ?db] by simp
  have h: "rate_history (applyAll now ?vs ?db) = rate_history db @ map (historyRow now) ?vs"
    by (simp add: applyAll_history)
  have d: "dom (exchange_rates (applyAll now ?vs ?db)) = dom (exchange_rates db) \<union> fst ` set ?vs"
    by (simp add: applyAll_dom)
  show ?thesis
    unfolding updateRates_noFaults using w o h d validQuotes_iff [of code r "Quotes data"] by blast
qed

text \<open>
  The snapshot \<open>{"USDEUR": 0.9, "USDJPY": 150.0, "USDXX": 2}\<close> on an empty store gives
  exactly the two current rates EUR and JPY, EUR at 0.9, and two history rows; no rate
  is stored for GBP.
\<close>

theorem sync_filter_witness:
  "rate_history (updateRates noFaults 5000 (Decoded snapshot) emptyStore)
     = [\<lparr>currency_code = ''EUR'', rate = 9 / 10, recorded_at = 5000\<rparr>,
        \<lparr>currency_code = ''JPY'', rate = 150, recorded_at = 5000\<rparr>]
   \<and> dom (exchange_rates (updateRates noFaults 5000 (Decoded snapshot) emptyStore))
     = {''EUR'', ''JPY''}
   \<and> exchange_rates (updateRates noFaults 5000 (Decoded snapshot) emptyStore) ''EUR''
     = Some \<lparr>rate_to_base = 9 / 10, updated_at = 5000\<rparr>
   \<and> exchange_rates (updateRates noFaults 5000 (Decoded snapshot) emptyStore) ''GBP'' = None"
proof -
  have e: "emptyStore\<lparr>reachable := True\<rparr> = emptyStore" by (simp add: emptyStore_def)
  note eur = sync_filter [where now = 5000 and data = snapshot and db = emptyStore
      and c = "''EUR''", unfolded e validQuotes_snapshot]
  note gbp = sync_filter [where now = 5000 and data = snapshot and db = emptyStore
      and c = "''GBP''", unfolded e validQuotes_snapshot]
  have 1: "rate_history (updateRates noFaults 5000 (Decoded snapshot) emptyStore)
     = [\<lparr>currency_code = ''EUR'', rate = 9 / 10, recorded_at = 5000\<rparr>,
        \<lparr>currency_code = ''JPY'', rate = 150, recorded_at = 5000\<rparr>]"
    using eur [THEN conjunct1] by (simp add: historyRow_def emptyStore_def)
  have 2: "dom (exchange_rates (updateRates noFaults 5000 (Decoded snapshot) emptyStore))
     = {''EUR'', ''JPY''}"
    using eur [THEN conjunct2, THEN conjunct1] by (simp add: emptyStore_def)
  have 3: "exchange_rates (updateRates noFaults 5000 (Decoded snapshot) emptyStore) ''EUR''
     = Some \<lparr>rate_to_base = 9 / 10, updated_at = 5000\<rparr>"
    using eur [THEN conjunct2, THEN conjunct2, THEN conjunct1] by auto
  have 4: "exchange_rates (updateRates noFaults 5000 (Decoded snapshot) emptyStore) ''GBP'' = None"
    using gbp [THEN conjunct2, THEN conjunct2, THEN conjunct2, THEN conjunct1]
    by (simp add: emptyStore_def)
  from 1 2 3 4 show ?thesis by (intro conjI)
qed

subsection \<open>C10: the provider's success flag\<close>

text \<open>
  C10. Two provider responses that differ only in the field \<open>success\<close> make a sync cycle
  do the same to the store, whatever fails during the cycle; and a payload with
  \<open>success = false\<close> is applied in full when nothing fails.
\<close>

theorem success_ignored:
  "updateRates f now (Decoded (data\<lparr>Success := b\<rparr>)) db
     = updateRates f now (Decoded (data\<lparr>Success := b'\<rparr>)) db
   \<and> updateRates noFaults now (Decoded (data\<lparr>Success := False\<rparr>)) (db\<lparr>reachable := True\<rparr>)
     = applyAll now (validQuotes (Quotes data)) (db\<lparr>reachable := True\<rparr>)"
proof
  show "updateRates f now (Decoded (data\<lparr>Success := b\<rparr>)) db
     = updateRates f now (Decoded (data\<lparr>Success := b'\<rparr>)) db"
    by (simp add: updateRates_def split: option.splits)
  show "updateRates noFaults now (Decoded (data\<lparr>Success := False\<rparr>)) (db\<lparr>reachable := True\<rparr>)
     = applyAll now (validQuotes (Quotes data)) (db\<lparr>reachable := True\<rparr>)"
    using updateRates_noFaults [of now "data\<lparr>Success := False\<rparr>" db] by simp
qed

theorem success_ignored_witness:
  "updateRates noFaults 5000 (Decoded (snapshot\<lparr>Success := False\<rparr>)) emptyStore
     = updateRates noFaults 5000 (Decoded snapshot) emptyStore
   \<and> rate_history (updateRates noFaults 5000 (Decoded (snapshot\<lparr>Success := False\<rparr>)) emptyStore)
     = [\<lparr>currency_code = ''EUR'', rate = 9 / 10, recorded_at = 5000\<rparr>,
        \<lparr>currency_code = ''JPY'', rate = 150, recorded_at = 5000\<rparr>]"
proof -
  have e: "emptyStore\<lparr>reachable := True\<rparr> = emptyStore" by (simp add: emptyStore_def)
  have s: "snapshot\<lparr>Success := True\<rparr> = snapshot" by (simp add: snapshot_def)
  note w = success_ignored [where f = noFaults and now = 5000 and data = snapshot and b = False
        and b' = True and db = emptyStore, unfolded e s validQuotes_snapshot]
  have h: "rate_history (applyAll 5000 [(''EUR'', 9 / 10), (''JPY'', 150)] emptyStore)
     = [\<lparr>currency_code = ''EUR'', rate = 9 / 10, recorded_at = 5000\<rparr>,
        \<lparr>currency_code = ''JPY'', rate = 150, recorded_at = 5000\<rparr>]"
    by (simp only: applyAll_history) (simp add: historyRow_def emptyStore_def)
  show ?thesis
  proof (intro conjI)
    show "updateRates noFaults 5000 (Decoded (snapshot\<lparr>Success := False\<rparr>)) emptyStore
            = updateRates noFaults 5000 (Decoded snapshot) emptyStore"
      by (rule conjunct1 [OF w])
    show "rate_history (updateRates noFaults 5000 (Decoded (snapshot\<lparr>Success := False\<rparr>)) emptyStore)
            = [\<lparr>currency_code = ''EUR'', rate = 9 / 10, recorded_at = 5000\<rparr>,
               \<lparr>currency_code = ''JPY'', rate = 150, recorded_at = 5000\<rparr>]"
      unfolding conjunct2 [OF w] by (rule h)
  qed
qed

subsection \<open>C9: an amount that is absent, malformed or zero\<close>

text \<open>
  C9. When the parameter \<open>amount\<close> of \<open>/convert\<close> is absent, is not a decimal literal, or
  is a literal of the number zero, the handler takes the amount 1 and goes on: its
  response is the response to the same request with \<open>amount=1\<close>, and it is never a 400.
\<close>

theorem amount_defaulted:
  assumes "map_of q ''amount'' = None \<or> (\<exists>e. NewFromString (Get q ''amount'') = Inl e)
           \<or> (\<exists>d. NewFromString (Get q ''amount'') = Inr d \<and> IsZero d)"
  shows "amountOf q = NewFromInt 1
       \<and> handleConvert up db q = handleConvert up db ((''amount'', ''1'') # q)
       \<and> (\<forall>m. fst (handleConvert up db q) \<noteq> HttpError m 400)"
proof -
  have a: "amountOf q = NewFromInt 1" using assms by (rule amountOf_default)
  have "handleConvert up db ((''amount'', ''1'') # q) = handleConvert up db q"
    by (rule handleConvert_amount) (simp_all add: a amountOf_one Get_Cons_other)
  then show ?thesis using a by (simp add: handleConvert_not_400)
qed

theorem amount_defaulted_witness:
  "NewFromString (Get [(''from'', ''usd''), (''to'', ''eur''), (''amount'', ''12x'')] ''amount'')
     = Inl ''cannot convert to decimal''
   \<and> handleConvert sampleUpper sampleStore [(''from'', ''usd''), (''to'', ''eur''), (''amount'', ''12x'')]
     = (Json \<lparr>c_from = ''USD'', c_to = ''EUR'', c_amount = \<lparr>d_value = 1, d_exp = 0\<rparr>,
               c_result = \<lparr>d_value = 9000, d_exp = - 4\<rparr>\<rparr>,
        [SelectRate ''USD'', SelectRate ''EUR''])"
proof -
  let ?q = "[(''from'', ''usd''), (''to'', ''eur''), (''amount'', ''12x'')]"
  have p: "NewFromString (Get ?q ''amount'') = Inl ''cannot convert to decimal''"
    by (simp add: Get_def parse_defs)
  then have "\<exists>e. NewFromString (Get ?q ''amount'') = Inl e" by blast
  then have "handleConvert sampleUpper sampleStore ?q = handleConvert sampleUpper sampleStore ((''amount'', ''1'') # ?q)"
    using amount_defaulted [where q = ?q and db = sampleStore and up = sampleUpper] by blast
  also have "\<dots> = (Json \<lparr>c_from = ''USD'', c_to = ''EUR'', c_amount = \<lparr>d_value = 1, d_exp = 0\<rparr>,
               c_result = \<lparr>d_value = 9000, d_exp = - 4\<rparr>\<rparr>,
        [SelectRate ''USD'', SelectRate ''EUR''])"
    by (simp add: handleConvert_def amountOf_def request_defs parse_defs QueryRow_def sampleStore_def
        usdRate_def eurRate_def IsZero_def Mul_def Div_def DivRound_def QuoRem_def DivisionPrecision_def
        Cmp_def Abs_def wrap32_def Round_def rescale_def Let_def)
  finally show ?thesis using p by simp
qed

subsection \<open>C7: validation of the currency code\<close>

text \<open>
  C7 (amended). The specification takes a code to be valid only if it is 3 upper-case
  letters. Both handlers test \<open>len(code) != 3\<close> on the result of \<open>strings.ToUpper\<close> and
  nothing else: the code \<open>123\<close> passes the test, a query is sent for it, and the answer
  is 404 from \<open>/rates/\<close> and an empty list from \<open>/history\<close>.
\<close>

theorem code_validation_counterexample:
  "handleSingleRate sampleUpper sampleStore ''/rates/123''
     = (HttpError ''No encontrado'' 404, [SelectRateUpdated ''123''])
   \<and> handleHistory sampleUpper Map.empty sampleStore [(''code'', ''123'')]
     = (Json [], [SelectHistory ''123'' []])
   \<and> \<not> list_all isUpperLetter ''123''"
  by (simp add: handleSingleRate_def handleHistory_def request_defs QueryRow_def Query_def
      sampleStore_def isUpperLetter_def Let_def)

text \<open>
  C7, as the code has it. \<open>/history\<close> and \<open>/rates/\<close> answer 400, each with its own message
  and without sending any query, exactly when the result of \<open>strings.ToUpper\<close> on the
  supplied code is not 3 bytes long. When that result is 3 bytes long it passes the
  validation whatever its bytes are: one query is sent, for the result of
  \<open>strings.ToUpper\<close>, and the answer is not a 400. The length that is tested is the one
  after \<open>strings.ToUpper\<close>, whatever the Unicode mapping \<open>up\<close> does to a code that is
  not ASCII; on an ASCII code it is the number of bytes of the supplied code.
\<close>

theorem code_validation:
  "(length (ToUpper up (Get q ''code'')) \<noteq> 3 \<longrightarrow>
      handleHistory up tsin db q = (HttpError msgCodeRequired 400, []))
   \<and> (length (ToUpper up (TrimPrefix path ''/rates/'')) \<noteq> 3 \<longrightarrow>
      handleSingleRate up db path = (HttpError msgInvalidCode 400, []))
   \<and> (length (ToUpper up (Get q ''code'')) = 3 \<longrightarrow>
      (\<exists>conds. snd (handleHistory up tsin db q) = [SelectHistory (ToUpper up (Get q ''code'')) conds])
      \<and> (\<forall>m. fst (handleHistory up tsin db q) \<noteq> HttpError m 400))
   \<and> (length (ToUpper up (TrimPrefix path ''/rates/'')) = 3 \<longrightarrow>
      snd (handleSingleRate up db path) = [SelectRateUpdated (ToUpper up (TrimPrefix path ''/rates/''))]
      \<and> (\<forall>m. fst (handleSingleRate up db path) \<noteq> HttpError m 400))
   \<and> (isASCII s \<longrightarrow> length (ToUpper up s) = length s)"
  by (simp add: handleHistory_def handleSingleRate_def ToUpper_def Let_def split: option.splits)

text \<open>
  The ASCII codes \<open>eu\<close> and \<open>euro\<close> are refused, and \<open>eur\<close> is looked up as \<open>EUR\<close>. The path
  \<open>/rates/u%C5%BFd\<close> carries a code of 4 bytes whose upper case is \<open>USD\<close>: it is looked up.
  The code \<open>%FF\<close> is one byte, and 3 bytes once in upper case: a query is sent for it.
  The code \<open>%FF%FF%FF\<close> is 3 bytes, and 9 bytes once in upper case: it is refused.
\<close>

theorem code_validation_witness:
  "handleSingleRate sampleUpper sampleStore ''/rates/euro'' = (HttpError msgInvalidCode 400, [])
   \<and> handleHistory sampleUpper Map.empty sampleStore [(''code'', ''eu'')]
       = (HttpError msgCodeRequired 400, [])
   \<and> snd (handleSingleRate sampleUpper sampleStore ''/rates/eur'') = [SelectRateUpdated ''EUR'']
   \<and> (\<exists>conds. snd (handleHistory sampleUpper Map.empty sampleStore [(''code'', ''eur'')])
         = [SelectHistory ''EUR'' conds])
   \<and> snd (handleSingleRate sampleUpper sampleStore (''/rates/u'' @ [CHR 0xC5, CHR 0xBF] @ ''d''))
       = [SelectRateUpdated ''USD'']
   \<and> (\<exists>conds. snd (handleHistory sampleUpper Map.empty sampleStore [(''code'', [CHR 0xFF])])
         = [SelectHistory [CHR 0xEF, CHR 0xBF, CHR 0xBD] conds])
   \<and> handleHistory sampleUpper Map.empty sampleStore [(''code'', [CHR 0xFF, CHR 0xFF, CHR 0xFF])]
       = (HttpError msgCodeRequired 400, [])
   \<and> length (ToUpper sampleUpper ''eur'') = 3"
proof -
  have n: "ToUpper sampleUpper (Get [(''code'', ''eu'')] ''code'') = ''EU''"
      "ToUpper sampleUpper (TrimPrefix ''/rates/euro'' ''/rates/'') = ''EURO''"
      "ToUpper sampleUpper (Get [(''code'', ''eur'')] ''code'') = ''EUR''"
      "ToUpper sampleUpper (TrimPrefix ''/rates/eur'' ''/rates/'') = ''EUR''"
      "ToUpper sampleUpper (TrimPrefix (''/rates/u'' @ [CHR 0xC5, CHR 0xBF] @ ''d'') ''/rates/'') = ''USD''"
      "ToUpper sampleUpper (Get [(''code'', [CHR 0xFF])] ''code'') = [CHR 0xEF, CHR 0xBF, CHR 0xBD]"
      "ToUpper sampleUpper (Get [(''code'', [CHR 0xFF, CHR 0xFF, CHR 0xFF])] ''code'')
         = [CHR 0xEF, CHR 0xBF, CHR 0xBD, CHR 0xEF, CHR 0xBF, CHR 0xBD, CHR 0xEF, CHR 0xBF, CHR 0xBD]"
      "isASCII ''eur''"
    by (simp_all add: request_defs)
  note a = code_validation [where up = sampleUpper and q = "[(''code'', ''eu'')]"
      and path = "''/rates/euro''" and tsin = Map.empty and db = sampleStore and s = "''eur''"]
  note b = code_validation [where up = sampleUpper and q = "[(''code'', ''eur'')]"
      and path = "''/rates/eur''" and tsin = Map.empty and db = sampleStore]
  note c = code_validation [where up = sampleUpper and q = "[(''code'', [CHR 0xFF])]"
      and path = "''/rates/u'' @ [CHR 0xC5, CHR 0xBF] @ ''d''" and tsin = Map.empty
      and db = sampleStore]
  note d = code_validation [where up = sampleUpper
      and q = "[(''code'', [CHR 0xFF, CHR 0xFF, CHR 0xFF])]" and tsin = Map.empty
      and db = sampleStore]
  have e: "length (ToUpper sampleUpper ''eur'') = 3"
    using a n(8) by simp
  show ?thesis using a b c d e unfolding n by simp
qed

subsection \<open>C4: the conversion contract\<close>

text \<open>
  C4 (amended). The specification has the result computed exactly and rounded once, to
  4 fractional digits. \<open>Div\<close> rounds the quotient to 16 fractional digits first. For
  \<open>0.00749999999999999999\<close> JPY in USD the exact quotient is below \<open>0.00005\<close> and rounds
  to \<open>0.0000\<close>, while \<open>Div\<close> returns \<open>0.0000500000000000\<close> and \<open>Round\<close> makes it \<open>0.0001\<close>.
\<close>

theorem convert_contract_counterexample:
  "fst (handleConvert sampleUpper sampleStore longAmount)
     = Json \<lparr>c_from = ''JPY'', c_to = ''USD'',
             c_amount = \<lparr>d_value = 749999999999999999, d_exp = - 20\<rparr>,
             c_result = \<lparr>d_value = 1, d_exp = - 4\<rparr>\<rparr>
   \<and> dec_val \<lparr>d_value = 1, d_exp = - 4\<rparr>
       \<noteq> roundHalfAway 4 (dec_val \<lparr>d_value = 749999999999999999, d_exp = - 20\<rparr>
                          * dec_val usdRate / dec_val jpyRate)"
proof
  show "fst (handleConvert sampleUpper sampleStore longAmount)
     = Json \<lparr>c_from = ''JPY'', c_to = ''USD'',
             c_amount = \<lparr>d_value = 749999999999999999, d_exp = - 20\<rparr>,
             c_result = \<lparr>d_value = 1, d_exp = - 4\<rparr>\<rparr>"
    by (simp add: longAmount_def convert_defs request_defs parse_defs sampleStore_def
        usdRate_def jpyRate_def)
  have v: "dec_val \<lparr>d_value = 749999999999999999, d_exp = - 20\<rparr> * dec_val usdRate / dec_val jpyRate
           = 749999999999999999 / 15000000000000000000000"
    by (simp add: dec_val_def usdRate_def jpyRate_def power_int_minus_divide)
  have "\<lfloor>(749999999999999999 / 15000000000000000000000 :: rat) * 10 powi 4 + 1 / 2\<rfloor> = 0"
    by (rule floor_small) simp_all
  then have "roundHalfAway 4 (749999999999999999 / 15000000000000000000000) = 0"
    by (simp add: roundHalfAway_def)
  then show "dec_val \<lparr>d_value = 1, d_exp = - 4\<rparr>
       \<noteq> roundHalfAway 4 (dec_val \<lparr>d_value = 749999999999999999, d_exp = - 20\<rparr>
                          * dec_val usdRate / dec_val jpyRate)"
    unfolding v by (simp add: dec_val_def)
qed

text \<open>
  C4, as the code has it. When both currencies have a stored rate, the rate of \<open>from\<close> is
  not zero and the exponents stay in \<open>int32\<close>, \<open>/convert\<close> answers the amount it used and
  \<open>amount * rate(to) / rate(from)\<close> rounded half away from zero to 16 fractional digits
  and then to 4. When one of the two currencies has no stored rate it answers 404 and
  no result. (With a stored rate of zero for \<open>from\<close> the division panics, see
  \<open>handleConvert_div0\<close>.)
\<close>

theorem convert_contract:
  "(QueryRow db (ToUpper up (Get q ''from'')) = Some rowFrom
      \<and> QueryRow db (ToUpper up (Get q ''to'')) = Some rowTo
      \<and> noPanic (amountOf q) (rate_to_base rowTo) (rate_to_base rowFrom) \<longrightarrow>
      (\<exists>res. fst (handleConvert up db q) = Json res \<and> c_amount res = amountOf q
         \<and> dec_val (c_result res)
           = roundHalfAway 4 (roundHalfAway 16
               (dec_val (amountOf q) * dec_val (rate_to_base rowTo) / dec_val (rate_to_base rowFrom)))))
   \<and> (QueryRow db (ToUpper up (Get q ''from'')) = None \<or> QueryRow db (ToUpper up (Get q ''to'')) = None \<longrightarrow>
      fst (handleConvert up db q) = HttpError ''Divisa no encontrada'' 404)"
proof (intro conjI impI)
  assume a: "QueryRow db (ToUpper up (Get q ''from'')) = Some rowFrom
      \<and> QueryRow db (ToUpper up (Get q ''to'')) = Some rowTo
      \<and> noPanic (amountOf q) (rate_to_base rowTo) (rate_to_base rowFrom)"
  then have "\<exists>res. handleConvert up db q
             = (Json res, [SelectRate (ToUpper up (Get q ''from'')), SelectRate (ToUpper up (Get q ''to''))])
           \<and> c_from res = ToUpper up (Get q ''from'') \<and> c_to res = ToUpper up (Get q ''to'')
           \<and> c_amount res = amountOf q
           \<and> dec_val (c_result res)
               = convertValue (dec_val (amountOf q)) (dec_val (rate_to_base rowTo))
                   (dec_val (rate_to_base rowFrom))"
    by (intro handleConvert_Json) simp_all
  then show "\<exists>res. fst (handleConvert up db q) = Json res \<and> c_amount res = amountOf q
         \<and> dec_val (c_result res)
           = roundHalfAway 4 (roundHalfAway 16
               (dec_val (amountOf q) * dec_val (rate_to_base rowTo) / dec_val (rate_to_base rowFrom)))"
    by (auto simp: convertValue_def)
next
  assume "QueryRow db (ToUpper up (Get q ''from'')) = None \<or> QueryRow db (ToUpper up (Get q ''to'')) = None"
  then show "fst (handleConvert up db q) = HttpError ''Divisa no encontrada'' 404"
    by (simp add: handleConvert_404)
qed

theorem convert_contract_witness:
  "(\<exists>res. fst (handleConvert sampleUpper sampleStore hundredUsd) = Json res
       \<and> c_amount res = \<lparr>d_value = 100, d_exp = 0\<rparr> \<and> dec_val (c_result res) = 90)
   \<and> fst (handleConvert sampleUpper sampleStore [(''from'', ''usd''), (''to'', ''gbp'')])
       = HttpError ''Divisa no encontrada'' 404"
proof -
  have a: "amountOf hundredUsd = \<lparr>d_value = 100, d_exp = 0\<rparr>"
    by (simp add: hundredUsd_def amountOf_def Get_def parse_defs IsZero_def)
  have f: "QueryRow sampleStore (ToUpper sampleUpper (Get hundredUsd ''from''))
             = Some \<lparr>rate_to_base = usdRate, updated_at = 3000\<rparr>"
    by (simp add: hundredUsd_def request_defs QueryRow_def sampleStore_def)
  have t: "QueryRow sampleStore (ToUpper sampleUpper (Get hundredUsd ''to''))
             = Some \<lparr>rate_to_base = eurRate, updated_at = 3000\<rparr>"
    by (simp add: hundredUsd_def request_defs QueryRow_def sampleStore_def)
  have np: "noPanic (amountOf hundredUsd) eurRate usdRate"
    by (simp add: a noPanic_def isDecimal_def usdRate_def eurRate_def MinInt32_def MaxInt32_def)
  have v: "roundHalfAway 4 (roundHalfAway 16 (dec_val (amountOf hundredUsd) * dec_val eurRate / dec_val usdRate))
           = 90"
  proof -
    have "dec_val (amountOf hundredUsd) * dec_val eurRate / dec_val usdRate = 90"
      by (simp add: a dec_val_def usdRate_def eurRate_def power_int_minus_divide)
    moreover have "roundHalfAway 16 90 = 90"
      using roundHalfAway_exact [of 90 "90 * 10 ^ 16" 16] by (simp add: power_int_minus_divide)
    moreover have "roundHalfAway 4 90 = 90"
      using roundHalfAway_exact [of 90 "90 * 10 ^ 4" 4] by (simp add: power_int_minus_divide)
    ultimately show ?thesis by simp
  qed
  have g: "QueryRow sampleStore (ToUpper sampleUpper (Get [(''from'', ''usd''), (''to'', ''gbp'')] ''to'')) = None"
    by (simp add: request_defs QueryRow_def sampleStore_def)
  show ?thesis
    using convert_contract [where up = sampleUpper and db = sampleStore and q = hundredUsd
        and rowFrom = "\<lparr>rate_to_base = usdRate, updated_at = 3000\<rparr>"
        and rowTo = "\<lparr>rate_to_base = eurRate, updated_at = 3000\<rparr>"]
      convert_contract [where up = sampleUpper and db = sampleStore and q = "[(''from'', ''usd''), (''to'', ''gbp'')]"]
      f t np g
    by (simp add: v [unfolded a] a)
qed

subsection \<open>C2: converting a currency into itself\<close>

text \<open>
  C2 (amended). The specification has \<open>convert(A, A, x)\<close> return \<open>x\<close> exactly for every
  amount. The result is rounded to 4 fractional digits: \<open>0.12345\<close> EUR in EUR is
  \<open>0.1235\<close>. A zero amount is replaced by 1: \<open>0\<close> EUR in EUR is \<open>1.0000\<close>.
\<close>

theorem convert_identity_counterexample:
  "fst (handleConvert sampleUpper sampleStore [(''from'', ''eur''), (''to'', ''eur''), (''amount'', ''0.12345'')])
     = Json \<lparr>c_from = ''EUR'', c_to = ''EUR'', c_amount = \<lparr>d_value = 12345, d_exp = - 5\<rparr>,
             c_result = \<lparr>d_value = 1235, d_exp = - 4\<rparr>\<rparr>
   \<and> dec_val \<lparr>d_value = 1235, d_exp = - 4\<rparr> \<noteq> dec_val \<lparr>d_value = 12345, d_exp = - 5\<rparr>
   \<and> fst (handleConvert sampleUpper sampleStore [(''from'', ''eur''), (''to'', ''eur''), (''amount'', ''0'')])
     = Json \<lparr>c_from = ''EUR'', c_to = ''EUR'', c_amount = \<lparr>d_value = 1, d_exp = 0\<rparr>,
             c_result = \<lparr>d_value = 10000, d_exp = - 4\<rparr>\<rparr>
   \<and> dec_val \<lparr>d_value = 10000, d_exp = - 4\<rparr> \<noteq> 0"
proof (intro conjI)
  show "fst (handleConvert sampleUpper sampleStore [(''from'', ''eur''), (''to'', ''eur''), (''amount'', ''0.12345'')])
     = Json \<lparr>c_from = ''EUR'', c_to = ''EUR'', c_amount = \<lparr>d_value = 12345, d_exp = - 5\<rparr>,
             c_result = \<lparr>d_value = 1235, d_exp = - 4\<rparr>\<rparr>"
    by (simp add: convert_defs request_defs parse_defs sampleStore_def eurRate_def)
  show "dec_val \<lparr>d_value = 1235, d_exp = - 4\<rparr> \<noteq> dec_val \<lparr>d_value = 12345, d_exp = - 5\<rparr>"
    by (simp add: dec_val_def power_int_minus_divide)
  show "fst (handleConvert sampleUpper sampleStore [(''from'', ''eur''), (''to'', ''eur''), (''amount'', ''0'')])
     = Json \<lparr>c_from = ''EUR'', c_to = ''EUR'', c_amount = \<lparr>d_value = 1, d_exp = 0\<rparr>,
             c_result = \<lparr>d_value = 10000, d_exp = - 4\<rparr>\<rparr>"
    by (simp add: convert_defs request_defs parse_defs sampleStore_def eurRate_def)
  show "dec_val \<lparr>d_value = 10000, d_exp = - 4\<rparr> \<noteq> 0"
    by (simp add: dec_val_def)
qed

text \<open>
  C2, as the code has it. For a currency with a stored rate that is not zero and an
  amount \<open>x\<close> that is not zero, \<open>convert(A, A, x)\<close> is \<open>x\<close> rounded half away from zero to 16
  fractional digits and then to 4. It is \<open>x\<close> rounded to 4 fractional digits when \<open>x\<close> has
  at most 16 of them, and \<open>x\<close> exactly when \<open>x\<close> has at most 4.
\<close>

theorem convert_identity:
  assumes "QueryRow db (ToUpper up (Get q ''from'')) = Some row"
    and "ToUpper up (Get q ''to'') = ToUpper up (Get q ''from'')"
    and "NewFromString (Get q ''amount'') = Inr x" and "d_value x \<noteq> 0"
    and "noPanic x (rate_to_base row) (rate_to_base row)"
  shows "\<exists>res. fst (handleConvert up db q) = Json res \<and> c_amount res = x
           \<and> dec_val (c_result res) = roundHalfAway 4 (roundHalfAway 16 (dec_val x))
           \<and> (- 16 \<le> d_exp x \<longrightarrow> dec_val (c_result res) = roundHalfAway 4 (dec_val x))
           \<and> (- 4 \<le> d_exp x \<longrightarrow> dec_val (c_result res) = dec_val x)"
proof -
  have a: "amountOf q = x" using assms(3,4) by (rule amountOf_parsed)
  have nz: "dec_val (rate_to_base row) \<noteq> 0"
    using assms(5) by (simp add: noPanic_def dec_val_zero_iff)
  have same: "convertValue (dec_val x) (dec_val (rate_to_base row)) (dec_val (rate_to_base row))
              = roundHalfAway 4 (roundHalfAway 16 (dec_val x))"
    using nz by (simp add: convertValue_def)
  have "\<exists>res. handleConvert up db q
             = (Json res, [SelectRate (ToUpper up (Get q ''from'')), SelectRate (ToUpper up (Get q ''to''))])
           \<and> c_from res = ToUpper up (Get q ''from'') \<and> c_to res = ToUpper up (Get q ''to'')
           \<and> c_amount res = amountOf q
           \<and> dec_val (c_result res)
               = convertValue (dec_val (amountOf q)) (dec_val (rate_to_base row))
                   (dec_val (rate_to_base row))"
    using assms(1,2,5) by (intro handleConvert_Json) (simp_all add: a)
  then obtain res where res: "fst (handleConvert up db q) = Json res" "c_amount res = x"
    "dec_val (c_result res) = roundHalfAway 4 (roundHalfAway 16 (dec_val x))"
    by (auto simp: a same)
  have r16: "dec_val (c_result res) = roundHalfAway 4 (dec_val x)" if "- 16 \<le> d_exp x"
    using that res(3) by (simp add: dec_val_exact)
  have r4: "dec_val (c_result res) = dec_val x" if "- 4 \<le> d_exp x"
    using that r16 by (simp add: dec_val_exact)
  from res r16 r4 show ?thesis by blast
qed

theorem convert_identity_witness:
  "\<exists>res. fst (handleConvert sampleUpper sampleStore [(''from'', ''eur''), (''to'', ''eur''), (''amount'', ''-12.5'')])
            = Json res
         \<and> c_amount res = \<lparr>d_value = - 125, d_exp = - 1\<rparr>
         \<and> dec_val (c_result res) = - 25 / 2"
proof -
  let ?q = "[(''from'', ''eur''), (''to'', ''eur''), (''amount'', ''-12.5'')]"
  let ?x = "\<lparr>d_value = - 125, d_exp = - 1\<rparr>"
  have 1: "QueryRow sampleStore (ToUpper sampleUpper (Get ?q ''from'')) = Some \<lparr>rate_to_base = eurRate, updated_at = 3000\<rparr>"
    by (simp add: request_defs QueryRow_def sampleStore_def)
  have 2: "ToUpper sampleUpper (Get ?q ''to'') = ToUpper sampleUpper (Get ?q ''from'')" by (simp add: request_defs)
  have 3: "NewFromString (Get ?q ''amount'') = Inr ?x" by (simp add: Get_def parse_defs)
  have 4: "d_value ?x \<noteq> 0" by simp
  have 5: "noPanic ?x (rate_to_base \<lparr>rate_to_base = eurRate, updated_at = 3000\<rparr>)
             (rate_to_base \<lparr>rate_to_base = eurRate, updated_at = 3000\<rparr>)"
    by (simp add: noPanic_def isDecimal_def eurRate_def MinInt32_def MaxInt32_def)
  have 7: "dec_val ?x = - 25 / 2" by (simp add: dec_val_def)
  from convert_identity [OF 1 2 3 4 5] show ?thesis by (auto simp: 7)
qed

subsection \<open>C5: zero and negative amounts\<close>

text \<open>
  C5 (amended). The specification has a zero amount give a zero result. The handler
  replaces a zero amount by 1: \<open>amount=0\<close> from USD to EUR answers the amount 1 and the
  result \<open>0.9000\<close>.
\<close>

theorem amount_sign_counterexample:
  "fst (handleConvert sampleUpper sampleStore [(''from'', ''usd''), (''to'', ''eur''), (''amount'', ''0'')])
     = Json \<lparr>c_from = ''USD'', c_to = ''EUR'', c_amount = \<lparr>d_value = 1, d_exp = 0\<rparr>,
             c_result = \<lparr>d_value = 9000, d_exp = - 4\<rparr>\<rparr>
   \<and> dec_val \<lparr>d_value = 9000, d_exp = - 4\<rparr> \<noteq> 0"
  by (simp add: convert_defs request_defs parse_defs sampleStore_def usdRate_def eurRate_def
      dec_val_def)

text \<open>
  C5, as the code has it. An amount \<open>x\<close> that is not zero, negative or not, is scaled by
  the rates and rounded as in C4, and the result for \<open>- x\<close> is the opposite of the result
  for \<open>x\<close>. A zero amount is not scaled: the response is the response to the same
  request with \<open>amount=1\<close>.
\<close>

theorem amount_sign:
  "(QueryRow db (ToUpper up (Get q ''from'')) = Some rowFrom
      \<and> QueryRow db (ToUpper up (Get q ''to'')) = Some rowTo
      \<and> Get q' ''from'' = Get q ''from'' \<and> Get q' ''to'' = Get q ''to''
      \<and> NewFromString (Get q ''amount'') = Inr x \<and> d_value x \<noteq> 0
      \<and> NewFromString (Get q' ''amount'') = Inr \<lparr>d_value = - d_value x, d_exp = d_exp x\<rparr>
      \<and> noPanic x (rate_to_base rowTo) (rate_to_base rowFrom) \<longrightarrow>
      (\<exists>res res'. fst (handleConvert up db q) = Json res \<and> fst (handleConvert up db q') = Json res'
         \<and> c_amount res = x \<and> c_amount res' = \<lparr>d_value = - d_value x, d_exp = d_exp x\<rparr>
         \<and> dec_val (c_result res)
             = roundHalfAway 4 (roundHalfAway 16
                 (dec_val x * dec_val (rate_to_base rowTo) / dec_val (rate_to_base rowFrom)))
         \<and> dec_val (c_result res') = - dec_val (c_result res)))
   \<and> ((\<exists>z. NewFromString (Get q ''amount'') = Inr z \<and> IsZero z) \<longrightarrow>
        handleConvert up db q = handleConvert up db ((''amount'', ''1'') # q))"
proof (intro conjI impI)
  assume h: "QueryRow db (ToUpper up (Get q ''from'')) = Some rowFrom
      \<and> QueryRow db (ToUpper up (Get q ''to'')) = Some rowTo
      \<and> Get q' ''from'' = Get q ''from'' \<and> Get q' ''to'' = Get q ''to''
      \<and> NewFromString (Get q ''amount'') = Inr x \<and> d_value x \<noteq> 0
      \<and> NewFromString (Get q' ''amount'') = Inr \<lparr>d_value = - d_value x, d_exp = d_exp x\<rparr>
      \<and> noPanic x (rate_to_base rowTo) (rate_to_base rowFrom)"
  let ?x' = "\<lparr>d_value = - d_value x, d_exp = d_exp x\<rparr>"
  have a: "amountOf q = x" using h by (intro amountOf_parsed) simp_all
  have a': "amountOf q' = ?x'" using h by (intro amountOf_parsed) simp_all
  have np': "noPanic ?x' (rate_to_base rowTo) (rate_to_base rowFrom)"
    using h by (simp add: noPanic_def)
  have v': "dec_val ?x' = - dec_val x" by (simp add: dec_val_def)
  have "\<exists>res. handleConvert up db q
             = (Json res, [SelectRate (ToUpper up (Get q ''from'')), SelectRate (ToUpper up (Get q ''to''))])
           \<and> c_from res = ToUpper up (Get q ''from'') \<and> c_to res = ToUpper up (Get q ''to'')
           \<and> c_amount res = amountOf q
           \<and> dec_val (c_result res)
               = convertValue (dec_val (amountOf q)) (dec_val (rate_to_base rowTo))
                   (dec_val (rate_to_base rowFrom))"
    using h by (intro handleConvert_Json) (simp_all add: a)
  then obtain res where res: "fst (handleConvert up db q) = Json res" "c_amount res = x"
    "dec_val (c_result res)
       = convertValue (dec_val x) (dec_val (rate_to_base rowTo)) (dec_val (rate_to_base rowFrom))"
    by (auto simp: a)
  have "\<exists>res. handleConvert up db q'
             = (Json res, [SelectRate (ToUpper up (Get q' ''from'')), SelectRate (ToUpper up (Get q' ''to''))])
           \<and> c_from res = ToUpper up (Get q' ''from'') \<and> c_to res = ToUpper up (Get q' ''to'')
           \<and> c_amount res = amountOf q'
           \<and> dec_val (c_result res)
               = convertValue (dec_val (amountOf q')) (dec_val (rate_to_base rowTo))
                   (dec_val (rate_to_base rowFrom))"
    using h np' by (intro handleConvert_Json) (simp_all add: a')
  then obtain res' where res': "fst (handleConvert up db q') = Json res'" "c_amount res' = ?x'"
    "dec_val (c_result res')
       = convertValue (- dec_val x) (dec_val (rate_to_base rowTo)) (dec_val (rate_to_base rowFrom))"
    by (auto simp: a' v')
  have "dec_val (c_result res') = - dec_val (c_result res)"
    by (simp add: res(3) res'(3) convertValue_neg)
  moreover have "dec_val (c_result res)
             = roundHalfAway 4 (roundHalfAway 16
                 (dec_val x * dec_val (rate_to_base rowTo) / dec_val (rate_to_base rowFrom)))"
    by (simp add: res(3) convertValue_def)
  ultimately show "\<exists>res res'. fst (handleConvert up db q) = Json res \<and> fst (handleConvert up db q') = Json res'
         \<and> c_amount res = x \<and> c_amount res' = \<lparr>d_value = - d_value x, d_exp = d_exp x\<rparr>
         \<and> dec_val (c_result res)
             = roundHalfAway 4 (roundHalfAway 16
                 (dec_val x * dec_val (rate_to_base rowTo) / dec_val (rate_to_base rowFrom)))
         \<and> dec_val (c_result res') = - dec_val (c_result res)"
    using res(1,2) res'(1,2) by blast
next
  assume "\<exists>z. NewFromString (Get q ''amount'') = Inr z \<and> IsZero z"
  then have a: "amountOf q = NewFromInt 1" by (intro amountOf_default) simp
  show "handleConvert up db q = handleConvert up db ((''amount'', ''1'') # q)"
    by (rule handleConvert_amount [symmetric]) (simp_all add: a amountOf_one Get_Cons_other)
qed

theorem amount_sign_witness:
  "(\<exists>res res'.
       fst (handleConvert sampleUpper sampleStore [(''from'', ''usd''), (''to'', ''jpy''), (''amount'', ''2.5'')])
         = Json res
     \<and> fst (handleConvert sampleUpper sampleStore [(''from'', ''usd''), (''to'', ''jpy''), (''amount'', ''-2.5'')])
         = Json res'
     \<and> dec_val (c_result res') = - dec_val (c_result res))
   \<and> handleConvert sampleUpper sampleStore [(''from'', ''usd''), (''to'', ''jpy''), (''amount'', ''0.0'')]
       = handleConvert sampleUpper sampleStore
           [(''amount'', ''1''), (''from'', ''usd''), (''to'', ''jpy''), (''amount'', ''0.0'')]"
proof -
  let ?q = "[(''from'', ''usd''), (''to'', ''jpy''), (''amount'', ''2.5'')]"
  let ?q' = "[(''from'', ''usd''), (''to'', ''jpy''), (''amount'', ''-2.5'')]"
  let ?z = "[(''from'', ''usd''), (''to'', ''jpy''), (''amount'', ''0.0'')]"
  let ?x = "\<lparr>d_value = 25, d_exp = - 1\<rparr>"
  have h: "QueryRow sampleStore (ToUpper sampleUpper (Get ?q ''from'')) = Some \<lparr>rate_to_base = usdRate, updated_at = 3000\<rparr>
      \<and> QueryRow sampleStore (ToUpper sampleUpper (Get ?q ''to'')) = Some \<lparr>rate_to_base = jpyRate, updated_at = 3000\<rparr>
      \<and> Get ?q' ''from'' = Get ?q ''from'' \<and> Get ?q' ''to'' = Get ?q ''to''
      \<and> NewFromString (Get ?q ''amount'') = Inr ?x \<and> d_value ?x \<noteq> 0
      \<and> NewFromString (Get ?q' ''amount'') = Inr \<lparr>d_value = - d_value ?x, d_exp = d_exp ?x\<rparr>
      \<and> noPanic ?x (rate_to_base \<lparr>rate_to_base = jpyRate, updated_at = 3000\<rparr>)
            (rate_to_base \<lparr>rate_to_base = usdRate, updated_at = 3000\<rparr>)"
    by (simp add: request_defs parse_defs QueryRow_def sampleStore_def noPanic_def isDecimal_def
        usdRate_def jpyRate_def)
  have z: "\<exists>z. NewFromString (Get ?z ''amount'') = Inr z \<and> IsZero z"
    by (simp add: Get_def parse_defs IsZero_def)
  note t = amount_sign [where up = sampleUpper and db = sampleStore and q = ?q and q' = ?q' and x = ?x
      and rowFrom = "\<lparr>rate_to_base = usdRate, updated_at = 3000\<rparr>"
      and rowTo = "\<lparr>rate_to_base = jpyRate, updated_at = 3000\<rparr>"]
  note t0 = amount_sign [where up = sampleUpper and db = sampleStore and q = ?z]
  from conjunct1 [OF t] h obtain res res' where
    "fst (handleConvert sampleUpper sampleStore ?q) = Json res" "fst (handleConvert sampleUpper sampleStore ?q') = Json res'"
    "dec_val (c_result res') = - dec_val (c_result res)"
    by blast
  moreover from conjunct2 [OF t0] z
  have "handleConvert sampleUpper sampleStore ?z = handleConvert sampleUpper sampleStore ((''amount'', ''1'') # ?z)"
    by blast
  ultimately show ?thesis by blast
qed

subsection \<open>C8: the round trip\<close>

text \<open>
  C8 (amended). The specification has the round trip recover every amount up to the
  rounding of the two results. \<open>0.004\<close> JPY is \<open>0.0000\<close> USD, and the amount \<open>0\<close> sent back
  is replaced by 1: the round trip returns 150 JPY. The rounding of the first result is
  scaled by the ratio of the rates on the way back: \<open>1.01\<close> JPY is \<open>0.0067\<close> USD, which is
  \<open>1.0050\<close> JPY, half a hundredth away.
\<close>

theorem round_trip_counterexample:
  "fst (handleConvert sampleUpper sampleStore [(''from'', ''jpy''), (''to'', ''usd''), (''amount'', ''0.004'')])
     = Json \<lparr>c_from = ''JPY'', c_to = ''USD'', c_amount = \<lparr>d_value = 4, d_exp = - 3\<rparr>,
             c_result = \<lparr>d_value = 0, d_exp = - 4\<rparr>\<rparr>
   \<and> fst (handleConvert sampleUpper sampleStore [(''from'', ''usd''), (''to'', ''jpy''), (''amount'', ''0'')])
     = Json \<lparr>c_from = ''USD'', c_to = ''JPY'', c_amount = \<lparr>d_value = 1, d_exp = 0\<rparr>,
             c_result = \<lparr>d_value = 1500000, d_exp = - 4\<rparr>\<rparr>
   \<and> dec_val \<lparr>d_value = 1500000, d_exp = - 4\<rparr> - dec_val \<lparr>d_value = 4, d_exp = - 3\<rparr>
       = 149996 / 1000
   \<and> fst (handleConvert sampleUpper sampleStore [(''from'', ''jpy''), (''to'', ''usd''), (''amount'', ''1.01'')])
     = Json \<lparr>c_from = ''JPY'', c_to = ''USD'', c_amount = \<lparr>d_value = 101, d_exp = - 2\<rparr>,
             c_result = \<lparr>d_value = 67, d_exp = - 4\<rparr>\<rparr>
   \<and> fst (handleConvert sampleUpper sampleStore [(''from'', ''usd''), (''to'', ''jpy''), (''amount'', ''0.0067'')])
     = Json \<lparr>c_from = ''USD'', c_to = ''JPY'', c_amount = \<lparr>d_value = 67, d_exp = - 4\<rparr>,
             c_result = \<lparr>d_value = 10050, d_exp = - 4\<rparr>\<rparr>
   \<and> dec_val \<lparr>d_value = 101, d_exp = - 2\<rparr> - dec_val \<lparr>d_value = 10050, d_exp = - 4\<rparr>
       = 5 / 1000"
proof (intro conjI)
  show "fst (handleConvert sampleUpper sampleStore [(''from'', ''jpy''), (''to'', ''usd''), (''amount'', ''0.004'')])
     = Json \<lparr>c_from = ''JPY'', c_to = ''USD'', c_amount = \<lparr>d_value = 4, d_exp = - 3\<rparr>,
             c_result = \<lparr>d_value = 0, d_exp = - 4\<rparr>\<rparr>"
    by (simp add: convert_defs request_defs parse_defs sampleStore_def usdRate_def jpyRate_def)
  show "fst (handleConvert sampleUpper sampleStore [(''from'', ''usd''), (''to'', ''jpy''), (''amount'', ''0'')])
     = Json \<lparr>c_from = ''USD'', c_to = ''JPY'', c_amount = \<lparr>d_value = 1, d_exp = 0\<rparr>,
             c_result = \<lparr>d_value = 1500000, d_exp = - 4\<rparr>\<rparr>"
    by (simp add: convert_defs request_defs parse_defs sampleStore_def usdRate_def jpyRate_def)
  show "dec_val \<lparr>d_value = 1500000, d_exp = - 4\<rparr> - dec_val \<lparr>d_value = 4, d_exp = - 3\<rparr>
       = 149996 / 1000"
    by (simp add: dec_val_def power_int_minus_divide)
  show "fst (handleConvert sampleUpper sampleStore [(''from'', ''jpy''), (''to'', ''usd''), (''amount'', ''1.01'')])
     = Json \<lparr>c_from = ''JPY'', c_to = ''USD'', c_amount = \<lparr>d_value = 101, d_exp = - 2\<rparr>,
             c_result = \<lparr>d_value = 67, d_exp = - 4\<rparr>\<rparr>"
    by (simp add: convert_defs request_defs parse_defs sampleStore_def usdRate_def jpyRate_def)
  show "fst (handleConvert sampleUpper sampleStore [(''from'', ''usd''), (''to'', ''jpy''), (''amount'', ''0.0067'')])
     = Json \<lparr>c_from = ''USD'', c_to = ''JPY'', c_amount = \<lparr>d_value = 67, d_exp = - 4\<rparr>,
             c_result = \<lparr>d_value = 10050, d_exp = - 4\<rparr>\<rparr>"
    by (simp add: convert_defs request_defs parse_defs sampleStore_def usdRate_def jpyRate_def)
  show "dec_val \<lparr>d_value = 101, d_exp = - 2\<rparr> - dec_val \<lparr>d_value = 10050, d_exp = - 4\<rparr>
       = 5 / 1000"
    by (simp add: dec_val_def power_int_minus_divide)
qed

text \<open>
  C8, as the code has it. Let A and B have stored rates, \<open>x\<close> be an amount that is not
  zero, and the result of converting \<open>x\<close> from A to B be not zero. Converting that result
  from B back to A gives \<open>x\<close> up to \<open>(1 + |rate(A) / rate(B)|) * tolerance\<close>, where
  \<open>tolerance\<close> is half a unit of the 4th fractional digit plus half a unit of the 16th:
  the rounding error of the first result is scaled by the ratio of the rates.
\<close>

theorem round_trip:
  assumes A: "QueryRow db (ToUpper up (Get q1 ''from'')) = Some rowA"
    and B: "QueryRow db (ToUpper up (Get q1 ''to'')) = Some rowB"
    and swap: "ToUpper up (Get q2 ''from'') = ToUpper up (Get q1 ''to'')"
              "ToUpper up (Get q2 ''to'') = ToUpper up (Get q1 ''from'')"
    and dec: "isDecimal (rate_to_base rowA)" "isDecimal (rate_to_base rowB)"
    and x: "NewFromString (Get q1 ''amount'') = Inr x" "d_value x \<noteq> 0"
    and r1: "fst (handleConvert up db q1) = Json res1"
    and y: "NewFromString (Get q2 ''amount'') = Inr y" "dec_val y = dec_val (c_result res1)"
           "d_value y \<noteq> 0"
    and r2: "fst (handleConvert up db q2) = Json res2"
  shows "\<bar>dec_val (c_result res2) - dec_val x\<bar>
           \<le> (1 + \<bar>dec_val (rate_to_base rowA) / dec_val (rate_to_base rowB)\<bar>) * tolerance"
proof -
  define a b X Y where "a = dec_val (rate_to_base rowA)" and "b = dec_val (rate_to_base rowB)"
    and "X = dec_val x" and "Y = dec_val y"
  have ax: "amountOf q1 = x" using x by (rule amountOf_parsed)
  have ay: "amountOf q2 = y" using y(1,3) by (rule amountOf_parsed)
  have A2: "QueryRow db (ToUpper up (Get q2 ''to'')) = Some rowA" using A swap by simp
  have B2: "QueryRow db (ToUpper up (Get q2 ''from'')) = Some rowB" using B swap by simp
  have np1: "noPanic (amountOf q1) (rate_to_base rowB) (rate_to_base rowA)"
    using A B r1 dec(1) by (rule handleConvert_Json_noPanic)
  have np2: "noPanic (amountOf q2) (rate_to_base rowA) (rate_to_base rowB)"
    using B2 A2 r2 dec(2) by (rule handleConvert_Json_noPanic)
  from handleConvert_Json [OF A B np1] r1
  have v1: "dec_val (c_result res1) = convertValue X b a"
    by (auto simp: ax a_def b_def X_def)
  from handleConvert_Json [OF B2 A2 np2] r2
  have v2: "dec_val (c_result res2) = convertValue Y a b"
    by (auto simp: ay a_def b_def Y_def)
  have a0: "a \<noteq> 0" using np1 by (simp add: noPanic_def a_def dec_val_zero_iff)
  have b0: "b \<noteq> 0" using np2 by (simp add: noPanic_def b_def dec_val_zero_iff)
  have Y: "Y = convertValue X b a" using y(2) v1 by (simp add: Y_def)
  have e1: "\<bar>Y - X * b / a\<bar> \<le> tolerance"
    unfolding Y tolerance_def by (rule convertValue_error)
  have e2: "\<bar>convertValue Y a b - Y * a / b\<bar> \<le> tolerance"
    unfolding tolerance_def by (rule convertValue_error)
  have "Y * a / b - X = (Y - X * b / a) * (a / b)"
    using a0 b0 by (simp add: field_simps)
  then have "\<bar>Y * a / b - X\<bar> = \<bar>Y - X * b / a\<bar> * \<bar>a / b\<bar>"
    by (simp add: abs_mult)
  also have "\<dots> \<le> tolerance * \<bar>a / b\<bar>"
    using e1 by (intro mult_right_mono) simp_all
  finally have e3: "\<bar>Y * a / b - X\<bar> \<le> tolerance * \<bar>a / b\<bar>" .
  have "\<bar>convertValue Y a b - X\<bar> \<le> \<bar>convertValue Y a b - Y * a / b\<bar> + \<bar>Y * a / b - X\<bar>"
    by linarith
  also have "\<dots> \<le> tolerance + tolerance * \<bar>a / b\<bar>"
    using e2 e3 by linarith
  also have "\<dots> = (1 + \<bar>a / b\<bar>) * tolerance" by (simp add: algebra_simps)
  finally show ?thesis by (simp add: v2 a_def b_def X_def)
qed

theorem round_trip_witness:
  "fst (handleConvert sampleUpper sampleStore [(''from'', ''eur''), (''to'', ''usd''), (''amount'', ''100'')])
     = Json \<lparr>c_from = ''EUR'', c_to = ''USD'', c_amount = \<lparr>d_value = 100, d_exp = 0\<rparr>,
             c_result = \<lparr>d_value = 1111111, d_exp = - 4\<rparr>\<rparr>
   \<and> fst (handleConvert sampleUpper sampleStore [(''from'', ''usd''), (''to'', ''eur''), (''amount'', ''111.1111'')])
     = Json \<lparr>c_from = ''USD'', c_to = ''EUR'', c_amount = \<lparr>d_value = 1111111, d_exp = - 4\<rparr>,
             c_result = \<lparr>d_value = 1000000, d_exp = - 4\<rparr>\<rparr>
   \<and> \<bar>dec_val \<lparr>d_value = 1000000, d_exp = - 4\<rparr> - dec_val \<lparr>d_value = 100, d_exp = 0\<rparr>\<bar>
       \<le> (1 + \<bar>dec_val eurRate / dec_val usdRate\<bar>) * tolerance"
proof -
  let ?q1 = "[(''from'', ''eur''), (''to'', ''usd''), (''amount'', ''100'')]"
  let ?q2 = "[(''from'', ''usd''), (''to'', ''eur''), (''amount'', ''111.1111'')]"
  let ?res1 = "\<lparr>c_from = ''EUR'', c_to = ''USD'', c_amount = \<lparr>d_value = 100, d_exp = 0\<rparr>,
             c_result = \<lparr>d_value = 1111111, d_exp = - 4\<rparr>\<rparr>"
  let ?res2 = "\<lparr>c_from = ''USD'', c_to = ''EUR'', c_amount = \<lparr>d_value = 1111111, d_exp = - 4\<rparr>,
             c_result = \<lparr>d_value = 1000000, d_exp = - 4\<rparr>\<rparr>"
  have A: "QueryRow sampleStore (ToUpper sampleUpper (Get ?q1 ''from'')) = Some \<lparr>rate_to_base = eurRate, updated_at = 3000\<rparr>"
    by (simp add: request_defs QueryRow_def sampleStore_def)
  have B: "QueryRow sampleStore (ToUpper sampleUpper (Get ?q1 ''to'')) = Some \<lparr>rate_to_base = usdRate, updated_at = 3000\<rparr>"
    by (simp add: request_defs QueryRow_def sampleStore_def)
  have swap: "ToUpper sampleUpper (Get ?q2 ''from'') = ToUpper sampleUpper (Get ?q1 ''to'')"
             "ToUpper sampleUpper (Get ?q2 ''to'') = ToUpper sampleUpper (Get ?q1 ''from'')"
    by (simp_all add: request_defs)
  have dec: "isDecimal (rate_to_base \<lparr>rate_to_base = eurRate, updated_at = 3000\<rparr>)"
            "isDecimal (rate_to_base \<lparr>rate_to_base = usdRate, updated_at = 3000\<rparr>)"
    by (simp_all add: isDecimal_def eurRate_def usdRate_def MinInt32_def MaxInt32_def)
  have x: "NewFromString (Get ?q1 ''amount'') = Inr \<lparr>d_value = 100, d_exp = 0\<rparr>"
          "d_value \<lparr>d_value = 100, d_exp = 0\<rparr> \<noteq> 0"
    by (simp_all add: Get_def parse_defs)
  have r1: "fst (handleConvert sampleUpper sampleStore ?q1) = Json ?res1"
    by (simp add: convert_defs request_defs parse_defs sampleStore_def usdRate_def eurRate_def)
  have y: "NewFromString (Get ?q2 ''amount'') = Inr \<lparr>d_value = 1111111, d_exp = - 4\<rparr>"
          "dec_val \<lparr>d_value = 1111111, d_exp = - 4\<rparr> = dec_val (c_result ?res1)"
          "d_value \<lparr>d_value = 1111111, d_exp = - 4\<rparr> \<noteq> 0"
    by (simp_all add: Get_def parse_defs)
  have r2: "fst (handleConvert sampleUpper sampleStore ?q2) = Json ?res2"
    by (simp add: convert_defs request_defs parse_defs sampleStore_def usdRate_def eurRate_def)
  from round_trip [OF A B swap dec x r1 y r2] r1 r2 show ?thesis by simp
qed

subsection \<open>C6: the history query\<close>

text \<open>
  C6. When \<open>/history\<close> answers a list, the list has at most 100 entries and is ordered by
  date, newest first; every entry comes from a history row of the requested code whose
  \<open>recorded_at\<close> lies between the bounds, each bound inclusive and applied only when
  its parameter is not empty; and a row of that code between the bounds is missing from
  the list only when the list is full.
\<close>

theorem history_query:
  assumes "handleHistory up tsin db q = (Json es, sent)"
  shows "length es \<le> 100
       \<and> sorted (rev (map h_date es))
       \<and> (\<forall>e \<in> set es.
            h_code e = ToUpper up (Get q ''code'')
            \<and> inWindow tsin (Get q ''start'') (Get q ''end'') (h_date e)
            \<and> (\<exists>row \<in> set (rate_history db).
                  currency_code row = ToUpper up (Get q ''code'') \<and> e = entryOf (currency_code row) row))
       \<and> (\<forall>row \<in> set (rate_history db).
            currency_code row = ToUpper up (Get q ''code'')
            \<and> inWindow tsin (Get q ''start'') (Get q ''end'') (recorded_at row)
            \<longrightarrow> length es = 100 \<or> entryOf (currency_code row) row \<in> set es)"
proof -
  let ?code = "ToUpper up (Get q ''code'')"
  let ?P = "\<lambda>row. currency_code row = ?code
                  \<and> inWindow tsin (Get q ''start'') (Get q ''end'') (recorded_at row)"
  let ?S = "sort_key recorded_at (filter ?P (rate_history db))"
  from handleHistory_Json [OF assms] obtain rows where es: "es = map (entryOf ?code) rows"
    and rows: "rows = [] \<and> (\<forall>t. \<not> inWindow tsin (Get q ''start'') (Get q ''end'') t)
               \<or> rows = take 100 (rev ?S)"
    by blast
  have dates: "map h_date es = map recorded_at rows"
    by (simp add: es entryOf_def)
  from rows show ?thesis
  proof
    assume e: "rows = [] \<and> (\<forall>t. \<not> inWindow tsin (Get q ''start'') (Get q ''end'') t)"
    then show ?thesis by (simp add: es)
  next
    assume r: "rows = take 100 (rev ?S)"
    have 1: "length es \<le> 100" by (simp add: es r)
    have 2: "sorted (rev (map h_date es))"
      unfolding dates r by (rule sorted_desc_take) simp
    have sub: "set rows \<subseteq> {row \<in> set (rate_history db). ?P row}"
    proof -
      have "set rows \<subseteq> set (rev ?S)" unfolding r by (rule set_take_subset)
      then show ?thesis by auto
    qed
    have 3: "\<forall>e \<in> set es. h_code e = ?code
            \<and> inWindow tsin (Get q ''start'') (Get q ''end'') (h_date e)
            \<and> (\<exists>row \<in> set (rate_history db). currency_code row = ?code \<and> e = entryOf (currency_code row) row)"
    proof
      fix e assume "e \<in> set es"
      then obtain row where row: "row \<in> set rows" "e = entryOf ?code row" by (auto simp: es)
      with sub have "row \<in> set (rate_history db)" "?P row" by auto
      then show "h_code e = ?code
            \<and> inWindow tsin (Get q ''start'') (Get q ''end'') (h_date e)
            \<and> (\<exists>row \<in> set (rate_history db). currency_code row = ?code \<and> e = entryOf (currency_code row) row)"
        using row(2) by (auto simp: entryOf_def)
    qed
    have 4: "\<forall>row \<in> set (rate_history db). ?P row
               \<longrightarrow> length es = 100 \<or> entryOf (currency_code row) row \<in> set es"
    proof (intro ballI impI)
      fix row assume "row \<in> set (rate_history db)" "?P row"
      then have "row \<in> set (rev ?S)" by simp
      then have "length (take 100 (rev ?S)) = 100 \<or> row \<in> set (take 100 (rev ?S))"
        by (rule take_all_or_full)
      then show "length es = 100 \<or> entryOf (currency_code row) row \<in> set es"
        using \<open>?P row\<close> by (auto simp: es r)
    qed
    from 1 2 3 4 show ?thesis by blast
  qed
qed

theorem history_query_witness:
  "handleHistory sampleUpper sampleTsin sampleStore [(''code'', ''eur''), (''start'', ''1500''), (''end'', ''3000'')]
     = (Json [\<lparr>h_code = ''EUR'', h_rate = \<lparr>d_value = 900000, d_exp = - 6\<rparr>, h_date = 3000\<rparr>,
              \<lparr>h_code = ''EUR'', h_rate = \<lparr>d_value = 920000, d_exp = - 6\<rparr>, h_date = 2000\<rparr>],
        [SelectHistory ''EUR'' [RecordedAtGe ''1500'', RecordedAtLe ''3000'']])
   \<and> sorted (rev [3000, 2000 :: int])
   \<and> inWindow sampleTsin ''1500'' ''3000'' 2000"
proof -
  let ?q = "[(''code'', ''eur''), (''start'', ''1500''), (''end'', ''3000'')]"
  let ?es = "[\<lparr>h_code = ''EUR'', h_rate = \<lparr>d_value = 900000, d_exp = - 6\<rparr>, h_date = 3000\<rparr>,
              \<lparr>h_code = ''EUR'', h_rate = \<lparr>d_value = 920000, d_exp = - 6\<rparr>, h_date = 2000\<rparr>]"
  have run: "handleHistory sampleUpper sampleTsin sampleStore ?q
     = (Json ?es, [SelectHistory ''EUR'' [RecordedAtGe ''1500'', RecordedAtLe ''3000'']])"
    by (simp add: handleHistory_def request_defs Query_def condArg_def condHolds_def sampleTsin_def
        ParseInt_def digitVal_def sampleStore_def eurRate_def Round_def rescale_def Let_def)
  from history_query [OF run] have "sorted (rev (map h_date ?es))"
    and "\<forall>e \<in> set ?es. inWindow sampleTsin (Get ?q ''start'') (Get ?q ''end'') (h_date e)"
    by blast+
  then show ?thesis using run by (simp add: Get_def)
qed

end
